theory Spec2Isabelle
  imports Complex_Main "HOL-Library.AList"
begin

section \<open>Data model\<close>

text \<open>
  The engine of the Entropy bot works on a 7 x 7 board stored row-major in an array of 49
  cells. A cell holds one of seven colours or the empty marker (the empty string of the
  TypeScript type \<open>Color\<close>). Board indices are natural numbers; the row and column of the
  move generator's probe can leave the board, so the probe works on integers.
  Array reads \<open>state[i]\<close> are modelled by \<open>state ! i\<close>; the theorems about boards assume
  that the board has its 49 cells, as the callers of the engine guarantee, and the indices
  that the engine computes are board indices, so no read is out of range.
\<close>

datatype Color = R | G | Y | B | W | K | P | Empty

type_synonym BoardState = "Color list"

datatype Turn = chaos | order

record GameState =
  state :: BoardState
  nextToken :: Color
  turn :: Turn

record Coordinates =
  row :: nat
  col :: nat

record Move =
  fromIdx :: nat
  toIdx :: nat

definition COLORS :: "Color list" where
  "COLORS = [R, G, Y, B, W, K, P]"

section \<open>Coordinate system\<close>

definition indexToCoords :: "nat \<Rightarrow> Coordinates" where
  "indexToCoords idx = \<lparr> row = idx div 7, col = idx mod 7 \<rparr>"

definition coordsToIndex :: "nat \<Rightarrow> nat \<Rightarrow> nat" where
  "coordsToIndex r c = r * 7 + c"

definition isValidCoord :: "int \<Rightarrow> int \<Rightarrow> bool" where
  "isValidCoord r c \<longleftrightarrow> r \<ge> 0 \<and> r < 7 \<and> c \<ge> 0 \<and> c < 7"

section \<open>Scoring\<close>

definition getRow :: "BoardState \<Rightarrow> nat \<Rightarrow> Color list" where
  "getRow st r = map (\<lambda>c. st ! (r * 7 + c)) [0..<7]"

definition getColumn :: "BoardState \<Rightarrow> nat \<Rightarrow> Color list" where
  "getColumn st c = map (\<lambda>r. st ! (r * 7 + c)) [0..<7]"

definition isPalindrome :: "Color list \<Rightarrow> bool" where
  "isPalindrome seq =
     list_all (\<lambda>i. seq ! i = seq ! (length seq - 1 - i)) [0..<length seq div 2]"

text \<open>
  \<open>getPalindromeSignature\<close>: the loop keeps the map from colours to letters, the code of the
  next unused letter (starting at the code of \<open>A\<close>, 65) and the signature built so far.
\<close>

fun signatureLoop :: "(Color \<rightharpoonup> char) \<Rightarrow> nat \<Rightarrow> string \<Rightarrow> Color list \<Rightarrow> string" where
  "signatureLoop mapping nextLetter signature [] = signature"
| "signatureLoop mapping nextLetter signature (color # rest) =
     (case mapping color of
        None \<Rightarrow>
          signatureLoop (mapping(color \<mapsto> char_of nextLetter)) (nextLetter + 1)
            (signature @ [char_of nextLetter]) rest
      | Some letter \<Rightarrow> signatureLoop mapping nextLetter (signature @ [letter]) rest)"

definition getPalindromeSignature :: "Color list \<Rightarrow> string" where
  "getPalindromeSignature seq = signatureLoop Map.empty 65 [] seq"

definition PALINDROME_SCORES :: "(string \<times> int) list" where
  "PALINDROME_SCORES =
    [(''AA'', 2),
     (''ABA'', 3), (''AAA'', 7),
     (''ABBA'', 6), (''AAAA'', 16),
     (''ABCBA'', 8), (''AABAA'', 12), (''ABABA'', 14), (''ABBBA'', 12), (''AAAAA'', 30),
     (''AABBAA'', 16), (''ABAABA'', 18), (''ABBBBA'', 22), (''ABCCBA'', 12), (''AAAAAA'', 50),
     (''ABCDCBA'', 15), (''AAABAAA'', 29), (''AABABAA'', 25), (''AABBBAA'', 23),
     (''AABCBAA'', 19), (''ABAAABA'', 25), (''ABABABA'', 27), (''ABACABA'', 21),
     (''ABBABBA'', 27), (''ABBBBBA'', 37), (''ABBCBBA'', 19), (''ABCACBA'', 15),
     (''ABCBCBA'', 21), (''ABCCCBA'', 19), (''AAAAAAA'', 77)]"

text \<open>
  \<open>PALINDROME_SCORES[signature] || seq.length\<close>: the length is taken when the signature is not
  a key of the table, and also when the entry is the falsy number 0.
\<close>

definition scorePalindrome :: "Color list \<Rightarrow> int" where
  "scorePalindrome seq =
     (case map_of PALINDROME_SCORES (getPalindromeSignature seq) of
        None \<Rightarrow> int (length seq)
      | Some v \<Rightarrow> if v = 0 then int (length seq) else v)"

text \<open>
  \<open>scoreSequence\<close>: the two nested loops run over every length from 2 to the number of filled
  cells and every start of a sub-run of that length; each palindromic sub-run adds its score.
\<close>

definition scoreSequence :: "Color list \<Rightarrow> int" where
  "scoreSequence sequence =
     (let filled = filter (\<lambda>c. c \<noteq> Empty) sequence in
      if length filled < 2 then 0
      else
        (\<Sum>len \<leftarrow> [2..<length filled + 1].
          \<Sum>start \<leftarrow> [0..<length filled - len + 1].
            (let substring = take len (drop start filled) in
             if isPalindrome substring then scorePalindrome substring else 0)))"

definition calculateFullBoardScore :: "BoardState \<Rightarrow> int" where
  "calculateFullBoardScore st =
     (\<Sum>r \<leftarrow> [0..<7]. scoreSequence (getRow st r)) +
     (\<Sum>c \<leftarrow> [0..<7]. scoreSequence (getColumn st c))"

section \<open>Move generation\<close>

text \<open>
  The four entries of \<open>DIRECTIONS\<close>, in the order of the source, with their row and column
  steps.
\<close>

datatype Direction = Up | Down | Left | Right

fun dRow :: "Direction \<Rightarrow> int" where
  "dRow Up = -1"
| "dRow Down = 1"
| "dRow Left = 0"
| "dRow Right = 0"

fun dCol :: "Direction \<Rightarrow> int" where
  "dCol Up = 0"
| "dCol Down = 0"
| "dCol Left = -1"
| "dCol Right = 1"

definition DIRECTIONS :: "Direction list" where
  "DIRECTIONS = [Up, Down, Left, Right]"

text \<open>
  The inner \<open>while (true)\<close> loop of the generator: step once in the direction, stop when the
  cell is off the board or occupied, otherwise yield the slide and continue from the new cell.
\<close>

function probe :: "BoardState \<Rightarrow> Direction \<Rightarrow> nat \<Rightarrow> int \<Rightarrow> int \<Rightarrow> Move list" where
  "probe st d fromI r c =
     (if \<not> isValidCoord (r + dRow d) (c + dCol d) then []
      else if st ! coordsToIndex (nat (r + dRow d)) (nat (c + dCol d)) \<noteq> Empty then []
      else \<lparr> fromIdx = fromI,
              toIdx = coordsToIndex (nat (r + dRow d)) (nat (c + dCol d)) \<rparr>
           # probe st d fromI (r + dRow d) (c + dCol d))"
  by pat_completeness auto
termination
  by (relation "measure (\<lambda>(st, d, fromI, r, c).
        nat (case d of Up \<Rightarrow> r + 1 | Down \<Rightarrow> 7 - r | Left \<Rightarrow> c + 1 | Right \<Rightarrow> 7 - c))")
     (auto simp: isValidCoord_def split: Direction.splits)

declare probe.simps [simp del]

definition generateLegalMoves :: "BoardState \<Rightarrow> Move list" where
  "generateLegalMoves st =
     concat (map (\<lambda>fromI.
        if st ! fromI = Empty then []
        else concat (map (\<lambda>direction.
               probe st direction fromI
                 (int (row (indexToCoords fromI))) (int (col (indexToCoords fromI))))
             DIRECTIONS))
      [0..<49])"

definition getAllLegalMoves :: "BoardState \<Rightarrow> Move list" where
  "getAllLegalMoves st = generateLegalMoves st"

definition getLegalMovesForPiece :: "BoardState \<Rightarrow> nat \<Rightarrow> Move list" where
  "getLegalMovesForPiece st fromI =
     (if st ! fromI = Empty then []
      else concat (map (\<lambda>direction.
             probe st direction fromI
               (int (row (indexToCoords fromI))) (int (col (indexToCoords fromI))))
           DIRECTIONS))"

section \<open>Move application and formatting\<close>

definition applyMove :: "BoardState \<Rightarrow> Move \<Rightarrow> BoardState" where
  "applyMove st move = (st[toIdx move := st ! fromIdx move])[fromIdx move := Empty]"

definition applyPlacement :: "BoardState \<Rightarrow> nat \<Rightarrow> Color \<Rightarrow> BoardState" where
  "applyPlacement st position color = st[position := color]"

text \<open>
  \<open>indexToPosition\<close>: the row letter (\<open>a\<close> has code 97) followed by the column number plus
  one, which is a single decimal digit (\<open>0\<close> has code 48) because the column is below 7.
\<close>

definition indexToPosition :: "nat \<Rightarrow> string" where
  "indexToPosition idx = [char_of (97 + idx div 7), char_of (48 + (idx mod 7 + 1))]"

text \<open>\<open>positionToIndex\<close> on a position whose second character is a decimal digit (where
  \<open>parseInt\<close> returns its value).\<close>

definition positionToIndex :: "string \<Rightarrow> int" where
  "positionToIndex pos =
     (int (of_char (pos ! 0)) - 97) * 7 + (int (of_char (pos ! 1)) - 48 - 1)"

text \<open>
  The result objects \<open>{ move: ... }\<close> of the two decision functions are modelled by their only
  field, the move string. A \<open>null\<close> move is \<open>None\<close>.
\<close>

definition formatOrderMove :: "Move option \<Rightarrow> string" where
  "formatOrderMove move =
     (case move of
        None \<Rightarrow> ''pass''
      | Some m \<Rightarrow> indexToPosition (fromIdx m) @ ''-'' @ indexToPosition (toIdx m))"

section \<open>Incremental scoring\<close>

definition calculateScoreDelta :: "BoardState \<Rightarrow> BoardState \<Rightarrow> Move \<Rightarrow> int" where
  "calculateScoreDelta oldState newState move =
     (let fromRow = row (indexToCoords (fromIdx move));
          fromCol = col (indexToCoords (fromIdx move));
          toRow = row (indexToCoords (toIdx move));
          toCol = col (indexToCoords (toIdx move));
          oldScore = scoreSequence (getRow oldState fromRow)
                   + scoreSequence (getColumn oldState fromCol)
                   + (if toRow \<noteq> fromRow then scoreSequence (getRow oldState toRow) else 0)
                   + (if toCol \<noteq> fromCol then scoreSequence (getColumn oldState toCol) else 0);
          newScore = scoreSequence (getRow newState fromRow)
                   + scoreSequence (getColumn newState fromCol)
                   + (if toRow \<noteq> fromRow then scoreSequence (getRow newState toRow) else 0)
                   + (if toCol \<noteq> fromCol then scoreSequence (getColumn newState toCol) else 0)
      in newScore - oldScore)"


section \<open>Board analysis utilities\<close>

text \<open>
  A JavaScript \<open>Map\<close> is an association list in insertion order: \<open>set\<close> on a present key
  replaces the value in place, \<open>set\<close> on a new key appends, \<open>size\<close> is the length.
  \<open>m.get(k) || 0\<close> reads 0 for an absent key.
\<close>

definition getOrZero :: "('k \<times> int) list \<Rightarrow> 'k \<Rightarrow> int" where
  "getOrZero m k = (case map_of m k of None \<Rightarrow> 0 | Some v \<Rightarrow> v)"

definition inferRemainingColors :: "BoardState \<Rightarrow> (Color \<times> int) list" where
  "inferRemainingColors st =
     fold (\<lambda>color remaining.
             if color \<noteq> Empty
             then AList.update color (getOrZero remaining color - 1) remaining
             else remaining)
       st [(R, 7), (G, 7), (Y, 7), (B, 7), (W, 7), (K, 7), (P, 7)]"

definition getColorDistribution :: "BoardState \<Rightarrow> (Color \<times> int) list" where
  "getColorDistribution st =
     fold (\<lambda>color distribution.
             if color \<noteq> Empty
             then AList.update color (getOrZero distribution color + 1) distribution
             else distribution)
       st []"

datatype Phase = early | mid | late

definition determineGamePhase :: "BoardState \<Rightarrow> Phase" where
  "determineGamePhase st =
     (let filledCount = length (filter (\<lambda>c. c \<noteq> Empty) st) in
      if filledCount < 16 then early
      else if filledCount < 35 then mid
      else late)"

definition getEmptyPositions :: "BoardState \<Rightarrow> nat list" where
  "getEmptyPositions st = filter (\<lambda>i. st ! i = Empty) [0..<49]"

definition getFilledPositions :: "BoardState \<Rightarrow> nat list" where
  "getFilledPositions st = filter (\<lambda>i. st ! i \<noteq> Empty) [0..<49]"

record PatternPotential =
  almostComplete :: int
  twoMove :: int
  threeMove :: int

definition checkNearPalindromes :: "Color list \<Rightarrow> int" where
  "checkNearPalindromes sequence =
     (let filled = filter (\<lambda>c. c \<noteq> Empty) sequence in
      if length filled \<ge> 2 \<and> filled ! 0 = filled ! (length filled - 1) then 1 else 0)"

definition analyzeSequencePotential :: "Color list \<Rightarrow> PatternPotential" where
  "analyzeSequencePotential sequence =
     (let emptyCount = length (filter (\<lambda>c. c = Empty) sequence) in
      if emptyCount = 1
      then \<lparr> almostComplete = checkNearPalindromes sequence, twoMove = 0, threeMove = 0 \<rparr>
      else if emptyCount = 2
      then \<lparr> almostComplete = 0, twoMove = checkNearPalindromes sequence, threeMove = 0 \<rparr>
      else if emptyCount = 3
      then \<lparr> almostComplete = 0, twoMove = 0, threeMove = checkNearPalindromes sequence \<rparr>
      else \<lparr> almostComplete = 0, twoMove = 0, threeMove = 0 \<rparr>)"

definition boardLines :: "BoardState \<Rightarrow> Color list list" where
  \<comment> \<open>the order in which every per-line loop of the source visits the lines: the seven rows,
      then the seven columns\<close>
  "boardLines st = map (getRow st) [0..<7] @ map (getColumn st) [0..<7]"

definition analyzePatternPotential :: "BoardState \<Rightarrow> PatternPotential" where
  "analyzePatternPotential st =
     \<lparr> almostComplete = (\<Sum>l \<leftarrow> boardLines st. almostComplete (analyzeSequencePotential l)),
       twoMove = (\<Sum>l \<leftarrow> boardLines st. twoMove (analyzeSequencePotential l)),
       threeMove = (\<Sum>l \<leftarrow> boardLines st. threeMove (analyzeSequencePotential l)) \<rparr>"

definition calculateCenterControl :: "BoardState \<Rightarrow> int" where
  "calculateCenterControl st =
     (let centerSquares =
            [coordsToIndex 2 3, coordsToIndex 3 3, coordsToIndex 2 4, coordsToIndex 3 4]
      in int (length (filter (\<lambda>idx. st ! idx \<noteq> Empty) centerSquares)))"

definition calculateEdgeControl :: "BoardState \<Rightarrow> int" where
  "calculateEdgeControl st =
     int (length (filter (\<lambda>i.
            (let r = row (indexToCoords i); c = col (indexToCoords i);
                 isEdge = (r = 0 \<or> r = 6 \<or> c = 0 \<or> c = 6)
             in isEdge \<and> st ! i \<noteq> Empty))
          [0..<49]))"

definition colorCounts :: "Color list \<Rightarrow> (Color \<times> int) list" where
  "colorCounts sequence =
     fold (\<lambda>color counts.
             if color \<noteq> Empty then AList.update color (getOrZero counts color + 1) counts
             else counts)
       sequence []"

text \<open>\<open>countColorGroups\<close> of the common components: the number of colours that occur at
  least twice in the line.\<close>

definition countColorGroups :: "Color list \<Rightarrow> int" where
  "countColorGroups sequence =
     int (length (filter (\<lambda>(color, count). count \<ge> 2) (colorCounts sequence)))"

definition calculateConnectedGroups :: "BoardState \<Rightarrow> int" where
  "calculateConnectedGroups st = (\<Sum>l \<leftarrow> boardLines st. countColorGroups l)"

definition calculateBoardControl :: "BoardState \<Rightarrow> rat" where
  "calculateBoardControl st =
     of_int (calculateCenterControl st) * 2 + of_int (calculateEdgeControl st) * 1
       + of_int (calculateConnectedGroups st) * (3 / 2)"

section \<open>Position evaluators\<close>

text \<open>
  The evaluators compute with JavaScript numbers. Every value that occurs is an integer or a
  multiple of one half of small magnitude, which IEEE doubles represent and add exactly, so the
  model computes in the rationals.
\<close>

definition calculatePatternPotential :: "BoardState \<Rightarrow> int" where
  "calculatePatternPotential st =
     (let analysis = analyzePatternPotential st in
      almostComplete analysis * 10 + twoMove analysis * 5 + threeMove analysis * 2)"

subsection \<open>The evaluator of the minimax search\<close>

definition isDisruptable :: "Color list \<Rightarrow> bool" where
  "isDisruptable sequence =
     (let emptyCount = length (filter (\<lambda>c. c = Empty) sequence);
          filledCount = length (filter (\<lambda>c. c \<noteq> Empty) sequence)
      in emptyCount > 0 \<and> filledCount \<ge> 2)"

definition calculateChaosOpportunitiesMinimax :: "BoardState \<Rightarrow> rat" where
  "calculateChaosOpportunitiesMinimax st =
     (let emptyCount = length (getEmptyPositions st);
          disruptablePatterns = length (filter isDisruptable (boardLines st))
      in of_nat emptyCount * (1 / 2) + of_nat disruptablePatterns * 2)"

definition evaluatePositionMinimax :: "GameState \<Rightarrow> rat" where
  "evaluatePositionMinimax gameState =
     (let st = state gameState;
          currentScore = calculateFullBoardScore st;
          potential = calculatePatternPotential st;
          chaosOpportunities = calculateChaosOpportunitiesMinimax st;
          boardControl = calculateBoardControl st
      in of_int currentScore * 100 + of_int potential * 50 + boardControl * 20
           + chaosOpportunities * (- 30))"

subsection \<open>The evaluator of the heuristic bot\<close>

text \<open>The heuristic bot has its own \<open>countColorGroups\<close>: every colour that occurs at least
  twice in the line adds its number of occurrences minus one.\<close>

definition countColorGroupsHeuristic :: "Color list \<Rightarrow> int" where
  "countColorGroupsHeuristic sequence =
     (\<Sum>(color, count) \<leftarrow> colorCounts sequence. if count \<ge> 2 then count - 1 else 0)"

definition calculateConnectedGroupsHeuristic :: "BoardState \<Rightarrow> int" where
  "calculateConnectedGroupsHeuristic st = (\<Sum>l \<leftarrow> boardLines st. countColorGroupsHeuristic l)"

text \<open>The list \<open>extendedCenter\<close> of the heuristic bot's centre control is empty in the source, so
  its loop adds nothing and the centre control is that of the common components.\<close>

definition calculateBoardControlHeuristic :: "BoardState \<Rightarrow> rat" where
  "calculateBoardControlHeuristic st =
     of_int (calculateCenterControl st) * 2 + of_int (calculateEdgeControl st) * 1
       + of_int (calculateConnectedGroupsHeuristic st) * (3 / 2)"

definition isVulnerableToDisruption :: "Color list \<Rightarrow> bool" where
  "isVulnerableToDisruption sequence =
     (let emptyCount = length (filter (\<lambda>c. c = Empty) sequence);
          filledCount = length (filter (\<lambda>c. c \<noteq> Empty) sequence);
          filled = filter (\<lambda>c. c \<noteq> Empty) sequence
      in if emptyCount = 0 \<or> filledCount < 2 then False
         else if length filled \<ge> 2 \<and> filled ! 0 = filled ! (length filled - 1) then True
         else list_ex (\<lambda>i. filled ! i = filled ! (i + 1)) [0..<length filled - 1])"

definition countDisruptablePatterns :: "BoardState \<Rightarrow> int" where
  "countDisruptablePatterns st = int (length (filter isVulnerableToDisruption (boardLines st)))"

definition calculateChaosOpportunities :: "BoardState \<Rightarrow> rat" where
  "calculateChaosOpportunities st =
     (let emptyCount = length (getEmptyPositions st);
          disruptablePatterns = countDisruptablePatterns st
      in of_nat emptyCount * (1 / 2) + of_int disruptablePatterns * 2)"

definition evaluateNextTokenPositions :: "BoardState \<Rightarrow> Color \<Rightarrow> int" where
  "evaluateNextTokenPositions st nxt =
     (\<Sum>pos \<leftarrow> getEmptyPositions st.
        (let rowColors = getRow st (row (indexToCoords pos));
             colColors = getColumn st (col (indexToCoords pos));
             rowHasNextToken = list_ex (\<lambda>c. c = nxt) rowColors;
             colHasNextToken = list_ex (\<lambda>c. c = nxt) colColors
         in if rowHasNextToken \<or> colHasNextToken then 2 else 0))"

definition analyzeColorDistribution :: "BoardState \<Rightarrow> Color \<Rightarrow> int" where
  "analyzeColorDistribution st nxt =
     (let onBoard = getColorDistribution st;
          nextTokenOnBoard = getOrZero onBoard nxt;
          uniqueColors = int (length onBoard)
      in (if nextTokenOnBoard \<le> 1 then 10 else 0)
         + (if nextTokenOnBoard \<ge> 4 then - 5 else 0)
         + uniqueColors * 2
         + evaluateNextTokenPositions st nxt)"

definition calculateColorDiversity :: "Color list \<Rightarrow> rat" where
  "calculateColorDiversity sequence =
     (let uniqueColors = length (remdups (filter (\<lambda>c. c \<noteq> Empty) sequence)) in
      if uniqueColors = 1 then 3
      else if uniqueColors = 2 then 5 / 2
      else if uniqueColors = 3 then 2
      else 1)"

definition calculateSequenceFertility :: "Color list \<Rightarrow> rat" where
  "calculateSequenceFertility sequence =
     (let emptyCount = int (length (filter (\<lambda>c. c = Empty) sequence));
          filledCount = 7 - emptyCount
      in if filledCount = 0 \<or> filledCount = 1 then 0
         else if filledCount \<ge> 2 \<and> filledCount \<le> 4
         then of_int (5 - emptyCount) * calculateColorDiversity sequence * 2
         else if filledCount \<ge> 5 \<and> filledCount \<le> 6 then of_int filledCount * (3 / 2)
         else 10)"

definition calculateFertility :: "BoardState \<Rightarrow> rat" where
  "calculateFertility st = (\<Sum>l \<leftarrow> boardLines st. calculateSequenceFertility l)"

definition evaluatePosition :: "GameState \<Rightarrow> rat" where
  "evaluatePosition gameState =
     (let st = state gameState;
          nxt = nextToken gameState;
          immediate = calculateFullBoardScore st;
          potential = calculatePatternPotential st;
          control = calculateBoardControlHeuristic st;
          opportunities = calculateChaosOpportunities st;
          distribution = analyzeColorDistribution st nxt;
          fertility = calculateFertility st
      in of_int immediate * 100 + of_int potential * 50 + control * 30
           + opportunities * (- 40) + of_int distribution * 20 + fertility * 25)"


section \<open>The minimax search of the mover\<close>

subsection \<open>Numbers with the two infinities\<close>

text \<open>\<open>alpha\<close>, \<open>beta\<close> and the running best values start at \<open>-Infinity\<close> or \<open>Infinity\<close>.\<close>

datatype Num = NegInf | Fin rat | PosInf

fun numLe :: "Num \<Rightarrow> Num \<Rightarrow> bool" where
  "numLe NegInf b = True"
| "numLe (Fin a) NegInf = False"
| "numLe (Fin a) (Fin b) = (a \<le> b)"
| "numLe (Fin a) PosInf = True"
| "numLe PosInf PosInf = True"
| "numLe PosInf b = False"

definition numGt :: "Num \<Rightarrow> Num \<Rightarrow> bool" where
  "numGt a b = (\<not> numLe a b)"

definition numMax :: "Num \<Rightarrow> Num \<Rightarrow> Num" where
  "numMax a b = (if numLe a b then b else a)"

definition numMin :: "Num \<Rightarrow> Num \<Rightarrow> Num" where
  "numMin a b = (if numLe a b then a else b)"

subsection \<open>The clock and the time manager\<close>

text \<open>
  \<open>Date.now()\<close> is an input of the program: \<open>now n\<close> is the reading of the \<open>n\<close>-th call, in
  milliseconds. The number of calls made so far and the transposition table are the mutable
  state that the search threads through its calls.
\<close>

record LRUCache =
  entries :: "(string \<times> rat) list"
  maxSize :: nat

record World =
  ticks :: nat
  cache :: LRUCache

record TimeManager =
  startTime :: int
  timeLimit :: int

definition dateNow :: "(nat \<Rightarrow> int) \<Rightarrow> World \<Rightarrow> int \<times> World" where
  "dateNow now w = (now (ticks w), w\<lparr> ticks := ticks w + 1 \<rparr>)"

definition elapsed :: "(nat \<Rightarrow> int) \<Rightarrow> TimeManager \<Rightarrow> World \<Rightarrow> int \<times> World" where
  "elapsed now tm w = (case dateNow now w of (t, w') \<Rightarrow> (t - startTime tm, w'))"

definition remaining :: "(nat \<Rightarrow> int) \<Rightarrow> TimeManager \<Rightarrow> World \<Rightarrow> int \<times> World" where
  "remaining now tm w = (case elapsed now tm w of (e, w') \<Rightarrow> (timeLimit tm - e, w'))"

definition shouldStop :: "(nat \<Rightarrow> int) \<Rightarrow> TimeManager \<Rightarrow> World \<Rightarrow> bool \<times> World" where
  "shouldStop now tm w = (case elapsed now tm w of (e, w') \<Rightarrow> (e \<ge> timeLimit tm, w'))"

subsection \<open>The LRU cache\<close>

definition newLRUCache :: "nat \<Rightarrow> LRUCache" where
  "newLRUCache n = \<lparr> entries = [], maxSize = n \<rparr>"

definition LRU_get :: "LRUCache \<Rightarrow> string \<Rightarrow> rat option \<times> LRUCache" where
  "LRU_get c key =
     (case map_of (entries c) key of
        None \<Rightarrow> (None, c)
      | Some v \<Rightarrow>
          (Some v, c\<lparr> entries := filter (\<lambda>e. fst e \<noteq> key) (entries c) @ [(key, v)] \<rparr>))"

definition LRU_set :: "LRUCache \<Rightarrow> string \<Rightarrow> rat \<Rightarrow> LRUCache" where
  "LRU_set c key v =
     (let added = filter (\<lambda>e. fst e \<noteq> key) (entries c) @ [(key, v)] in
      c\<lparr> entries := (if length added > maxSize c then tl added else added) \<rparr>)"

subsection \<open>Keys, terminal test and move ordering\<close>

text \<open>\<open>state.join('')\<close> concatenates the cells; an empty cell is the empty string.\<close>

fun colorString :: "Color \<Rightarrow> string" where
  "colorString R = ''R''"
| "colorString G = ''G''"
| "colorString Y = ''Y''"
| "colorString B = ''B''"
| "colorString W = ''W''"
| "colorString K = ''K''"
| "colorString P = ''P''"
| "colorString Empty = []"

definition getBoardStateKey :: "BoardState \<Rightarrow> string" where
  "getBoardStateKey st = concat (map colorString st)"

definition isGameOver :: "BoardState \<Rightarrow> bool" where
  "isGameOver st = (length (getEmptyPositions st) = 0)"

text \<open>\<open>Array.prototype.sort\<close> is stable; with the comparator \<open>b.score - a.score\<close> it sorts by
  descending score and keeps the order of equal scores.\<close>

definition orderMovesByHeuristic :: "BoardState \<Rightarrow> Move list \<Rightarrow> Move list" where
  "orderMovesByHeuristic st moves =
     (let scoredMoves = map (\<lambda>m. (m, calculateScoreDelta st (applyMove st m) m)) moves
      in map fst (sort_key (\<lambda>sm. - snd sm) scoredMoves))"

definition evaluatePatternDisruption :: "BoardState \<Rightarrow> nat \<Rightarrow> Color \<Rightarrow> int" where
  "evaluatePatternDisruption st position color =
     (let r = row (indexToCoords position);
          c = col (indexToCoords position);
          potentialBefore = almostComplete (analyzeSequencePotential (getRow st r))
                          + almostComplete (analyzeSequencePotential (getColumn st c));
          newState = applyPlacement st position color;
          potentialAfter = almostComplete (analyzeSequencePotential (getRow newState r))
                         + almostComplete (analyzeSequencePotential (getColumn newState c))
      in potentialBefore - potentialAfter)"

definition orderChaosPlacementsByHeuristic :: "BoardState \<Rightarrow> nat list \<Rightarrow> Color \<Rightarrow> nat list" where
  "orderChaosPlacementsByHeuristic st positions color =
     (let scoredPositions = map (\<lambda>pos. (pos, evaluatePatternDisruption st pos color)) positions
      in map fst (sort_key (\<lambda>sp. - snd sp) scoredPositions))"

subsection \<open>Minimax with alpha-beta pruning\<close>

text \<open>
  \<open>depth\<close> is a natural number: the driver passes \<open>maxDepth - 1\<close> with \<open>maxDepth\<close> from 1 to 4,
  and \<open>minimax\<close> enters a player only when \<open>depth\<close> is not 0, so \<open>depth - 1\<close> never goes below 0
  (a player entered with depth 0, which the source never does, returns at once in the model).
  The two \<open>for\<close> loops of the players are \<open>maxLoop\<close> and \<open>minLoop\<close>; they carry the running
  \<open>maxEval\<close> (or \<open>minEval\<close>), \<open>alpha\<close> and \<open>beta\<close>. Every function returns its result with the world
  it leaves behind.
\<close>

function minimax ::
    "(nat \<Rightarrow> int) \<Rightarrow> TimeManager \<Rightarrow> GameState \<Rightarrow> nat \<Rightarrow> Num \<Rightarrow> Num \<Rightarrow> bool \<Rightarrow> World \<Rightarrow> Num \<times> World"
  and maximizingPlayer ::
    "(nat \<Rightarrow> int) \<Rightarrow> TimeManager \<Rightarrow> GameState \<Rightarrow> nat \<Rightarrow> Num \<Rightarrow> Num \<Rightarrow> World \<Rightarrow> Num \<times> World"
  and maxLoop ::
    "(nat \<Rightarrow> int) \<Rightarrow> TimeManager \<Rightarrow> GameState \<Rightarrow> nat \<Rightarrow> Move list \<Rightarrow> Num \<Rightarrow> Num \<Rightarrow> Num \<Rightarrow> World
      \<Rightarrow> Num \<times> World"
  and minimizingPlayer ::
    "(nat \<Rightarrow> int) \<Rightarrow> TimeManager \<Rightarrow> GameState \<Rightarrow> nat \<Rightarrow> Num \<Rightarrow> Num \<Rightarrow> World \<Rightarrow> Num \<times> World"
  and minLoop ::
    "(nat \<Rightarrow> int) \<Rightarrow> TimeManager \<Rightarrow> GameState \<Rightarrow> nat \<Rightarrow> nat list \<Rightarrow> Num \<Rightarrow> Num \<Rightarrow> Num \<Rightarrow> World
      \<Rightarrow> Num \<times> World"
where
  "minimax now tm gameState depth alpha beta isMaximizing w =
     (case shouldStop now tm w of (stop, w1) \<Rightarrow>
        if stop then (Fin (evaluatePositionMinimax gameState), w1)
        else
          (case LRU_get (cache w1) (getBoardStateKey (state gameState)) of (cached, c2) \<Rightarrow>
             (case cached of
                Some v \<Rightarrow> (Fin v, w1\<lparr> cache := c2 \<rparr>)
              | None \<Rightarrow>
                  if depth = 0 \<or> isGameOver (state gameState)
                  then (Fin (evaluatePositionMinimax gameState),
                        w1\<lparr> cache := LRU_set c2 (getBoardStateKey (state gameState))
                                        (evaluatePositionMinimax gameState) \<rparr>)
                  else if isMaximizing
                  then maximizingPlayer now tm gameState depth alpha beta (w1\<lparr> cache := c2 \<rparr>)
                  else minimizingPlayer now tm gameState depth alpha beta (w1\<lparr> cache := c2 \<rparr>))))"
| "maximizingPlayer now tm gameState depth alpha beta w =
     (if depth = 0 then (NegInf, w)
      else
        (case minimax now tm gameState (depth - 1) alpha beta False w of (passEval, w1) \<Rightarrow>
           maxLoop now tm gameState depth
             (orderMovesByHeuristic (state gameState) (getAllLegalMoves (state gameState)))
             (numMax NegInf passEval) (numMax alpha (numMax NegInf passEval)) beta w1))"
| "maxLoop now tm gameState depth [] maxEval alpha beta w = (maxEval, w)"
| "maxLoop now tm gameState depth (m # rest) maxEval alpha beta w =
     (case shouldStop now tm w of (stop, w1) \<Rightarrow>
        if stop \<or> numLe beta alpha \<or> depth = 0 then (maxEval, w1)
        else
          (case minimax now tm (gameState\<lparr> state := applyMove (state gameState) m \<rparr>)
                  (depth - 1) alpha beta False w1 of (ev, w2) \<Rightarrow>
             if numLe beta (numMax alpha ev) then (numMax maxEval ev, w2)
             else maxLoop now tm gameState depth rest (numMax maxEval ev) (numMax alpha ev) beta w2))"
| "minimizingPlayer now tm gameState depth alpha beta w =
     minLoop now tm gameState depth
       (orderChaosPlacementsByHeuristic (state gameState) (getEmptyPositions (state gameState))
          (nextToken gameState))
       PosInf alpha beta w"
| "minLoop now tm gameState depth [] minEval alpha beta w = (minEval, w)"
| "minLoop now tm gameState depth (position # rest) minEval alpha beta w =
     (case shouldStop now tm w of (stop, w1) \<Rightarrow>
        if stop \<or> numLe beta alpha \<or> depth = 0 then (minEval, w1)
        else
          (case minimax now tm
                  (gameState\<lparr> state := applyPlacement (state gameState) position
                                          (nextToken gameState) \<rparr>)
                  (depth - 1) alpha beta True w1 of (ev, w2) \<Rightarrow>
             if numLe (numMin beta ev) alpha then (numMin minEval ev, w2)
             else minLoop now tm gameState depth rest (numMin minEval ev) alpha (numMin beta ev) w2))"
  by pat_completeness auto
termination
  by (relation "measures
        [\<lambda>x. case x of
               Inl (Inl (now, tm, gs, d, r)) \<Rightarrow> d
             | Inl (Inr (now, tm, gs, d, r)) \<Rightarrow> d
             | Inr (Inl (now, tm, gs, d, r)) \<Rightarrow> d
             | Inr (Inr (Inl (now, tm, gs, d, r))) \<Rightarrow> d
             | Inr (Inr (Inr (now, tm, gs, d, r))) \<Rightarrow> d,
         \<lambda>x. case x of
               Inl (Inl _) \<Rightarrow> 2
             | Inl (Inr _) \<Rightarrow> 1
             | Inr (Inl _) \<Rightarrow> 0
             | Inr (Inr (Inl _)) \<Rightarrow> 1
             | Inr (Inr (Inr _)) \<Rightarrow> 0,
         \<lambda>x. case x of
               Inr (Inl (now, tm, gs, d, ms, r)) \<Rightarrow> length ms
             | Inr (Inr (Inr (now, tm, gs, d, ps, r))) \<Rightarrow> length ps
             | _ \<Rightarrow> 0]")
     auto

subsection \<open>Iterative deepening and the mover's decision\<close>

text \<open>The fields \<open>score\<close> and \<open>move\<close> of \<open>MinimaxResult\<close>; a \<open>null\<close> move is \<open>None\<close>.\<close>

record MinimaxResult =
  resultScore :: Num
  resultMove :: "Move option"

text \<open>The \<open>for\<close> loop of \<open>iterativeDeepening\<close> over the ordered moves, carrying \<open>bestScore\<close> and
  \<open>bestMove\<close>.\<close>

fun deepeningLoop ::
    "(nat \<Rightarrow> int) \<Rightarrow> TimeManager \<Rightarrow> GameState \<Rightarrow> nat \<Rightarrow> Move list \<Rightarrow> Num \<Rightarrow> Move option \<Rightarrow> World
      \<Rightarrow> MinimaxResult \<times> World" where
  "deepeningLoop now tm gameState maxDepth [] bestScore bestMove w =
     (\<lparr> resultScore = bestScore, resultMove = bestMove \<rparr>, w)"
| "deepeningLoop now tm gameState maxDepth (m # rest) bestScore bestMove w =
     (case shouldStop now tm w of (stop, w1) \<Rightarrow>
        if stop then (\<lparr> resultScore = bestScore, resultMove = bestMove \<rparr>, w1)
        else
          (case minimax now tm (gameState\<lparr> state := applyMove (state gameState) m \<rparr>)
                  (maxDepth - 1) NegInf PosInf False w1 of (sc, w2) \<Rightarrow>
             if numGt sc bestScore
             then deepeningLoop now tm gameState maxDepth rest sc (Some m) w2
             else deepeningLoop now tm gameState maxDepth rest bestScore bestMove w2))"

definition iterativeDeepening ::
    "(nat \<Rightarrow> int) \<Rightarrow> TimeManager \<Rightarrow> GameState \<Rightarrow> nat \<Rightarrow> World \<Rightarrow> MinimaxResult \<times> World" where
  "iterativeDeepening now tm gameState maxDepth w =
     (let allMoves = getAllLegalMoves (state gameState);
          orderedMoves = orderMovesByHeuristic (state gameState) allMoves
      in deepeningLoop now tm gameState maxDepth orderedMoves NegInf None w)"

text \<open>The \<open>while\<close> loop of \<open>orderNextTurn\<close>: it runs while more than 500 ms remain and the depth
  is at most 4.\<close>

function orderLoop ::
    "(nat \<Rightarrow> int) \<Rightarrow> TimeManager \<Rightarrow> GameState \<Rightarrow> nat \<Rightarrow> Move option \<Rightarrow> World \<Rightarrow> Move option" where
  "orderLoop now tm gameState depth bestMove w =
     (case remaining now tm w of (rem, w1) \<Rightarrow>
        if rem > 500 \<and> depth \<le> 4
        then
          (case iterativeDeepening now tm gameState depth w1 of (result, w2) \<Rightarrow>
             orderLoop now tm gameState (depth + 1)
               (case resultMove result of Some m \<Rightarrow> Some m | None \<Rightarrow> bestMove) w2)
        else bestMove)"
  by pat_completeness auto
termination
  by (relation "measure (\<lambda>(now, tm, gameState, depth, bestMove, w). 5 - depth)") auto

declare orderLoop.simps [simp del]

text \<open>\<open>new TimeManager(2.0)\<close> reads the clock once; the limit is 2.0 * 1000 ms. The table is a
  fresh \<open>LRUCache\<close> of 5000 entries.\<close>

definition orderNextTurn :: "(nat \<Rightarrow> int) \<Rightarrow> GameState \<Rightarrow> string" where
  "orderNextTurn now gameState =
     (case dateNow now \<lparr> ticks = 0, cache = newLRUCache 5000 \<rparr> of (t, w) \<Rightarrow>
        formatOrderMove
          (orderLoop now \<lparr> startTime = t, timeLimit = 2000 \<rparr> gameState 1 None w))"

section \<open>Placement strategies of the placer\<close>

subsection \<open>The spoiler strategy\<close>

definition evaluatePatternBreaking :: "BoardState \<Rightarrow> nat \<Rightarrow> Color \<Rightarrow> int" where
  "evaluatePatternBreaking st position color =
     (let r = row (indexToCoords position);
          c = col (indexToCoords position);
          rowPotentialBefore = analyzeSequencePotential (getRow st r);
          tempState = st[position := color];
          rowPotentialAfter = analyzeSequencePotential (getRow tempState r);
          colPotentialBefore = analyzeSequencePotential (getColumn st c);
          colPotentialAfter = analyzeSequencePotential (getColumn tempState c);
          rowDisruption =
            (almostComplete rowPotentialBefore - almostComplete rowPotentialAfter) * 10
            + (twoMove rowPotentialBefore - twoMove rowPotentialAfter) * 5;
          colDisruption =
            (almostComplete colPotentialBefore - almostComplete colPotentialAfter) * 10
            + (twoMove colPotentialBefore - twoMove colPotentialAfter) * 5
      in rowDisruption + colDisruption)"

datatype Orientation = horizontal | vertical

definition couldFormPalindrome ::
    "BoardState \<Rightarrow> nat \<Rightarrow> nat \<Rightarrow> nat \<Rightarrow> Orientation \<Rightarrow> nat \<Rightarrow> bool" where
  "couldFormPalindrome st startRow startCol len direction position =
     (let sequence = map (\<lambda>i. st ! (if direction = horizontal
                                      then coordsToIndex startRow (startCol + i)
                                      else coordsToIndex (startRow + i) startCol))
                       [0..<len];
          posInSequence = (if direction = horizontal
                           then int (col (indexToCoords position)) - int startCol
                           else int (row (indexToCoords position)) - int startRow)
      in if posInSequence < 0 \<or> posInSequence \<ge> int len then False
         else
           (let emptyCount = length (filter (\<lambda>c. c = Empty) sequence);
                filledCount = int len - int emptyCount
            in if filledCount < 2 then False
               else
                 (let matches = length (filter
                        (\<lambda>i. sequence ! i \<noteq> Empty \<and> sequence ! (len - 1 - i) \<noteq> Empty
                             \<and> sequence ! i = sequence ! (len - 1 - i))
                        [0..<len div 2])
                  in matches \<ge> 1)))"

definition evaluateOpportunityDenial :: "BoardState \<Rightarrow> nat \<Rightarrow> int" where
  "evaluateOpportunityDenial st position =
     (let r = row (indexToCoords position);
          c = col (indexToCoords position)
      in \<Sum>len \<leftarrow> [2..<8].
           (\<Sum>start \<leftarrow> [nat (max 0 (int c - int len + 1))..<min 6 c + 1].
              if start + len > 7 then 0
              else if couldFormPalindrome st r start len horizontal position then int len else 0)
         + (\<Sum>start \<leftarrow> [nat (max 0 (int r - int len + 1))..<min 6 r + 1].
              if start + len > 7 then 0
              else if couldFormPalindrome st start c len vertical position then int len else 0))"

definition calculateIsolationScore :: "BoardState \<Rightarrow> nat \<Rightarrow> Color \<Rightarrow> int" where
  "calculateIsolationScore st position color =
     (let rowColors = getRow st (row (indexToCoords position));
          colColors = getColumn st (col (indexToCoords position));
          sameColorInRow = int (length (filter (\<lambda>c. c = color) rowColors));
          sameColorInCol = int (length (filter (\<lambda>c. c = color) colColors))
      in (7 - sameColorInRow) + (7 - sameColorInCol))"

definition calculateBlockingScore :: "BoardState \<Rightarrow> nat \<Rightarrow> Color \<Rightarrow> int" where
  "calculateBlockingScore st position color =
     (let rowPotential = analyzeSequencePotential (getRow st (row (indexToCoords position)));
          colPotential = analyzeSequencePotential (getColumn st (col (indexToCoords position)))
      in almostComplete rowPotential * 10 + twoMove rowPotential * 5
         + almostComplete colPotential * 10 + twoMove colPotential * 5)"

definition evaluateBagAwareness :: "BoardState \<Rightarrow> nat \<Rightarrow> Color \<Rightarrow> int" where
  "evaluateBagAwareness st position color =
     (let colorCount = getOrZero (inferRemainingColors st) color in
      if colorCount \<le> 2 then calculateIsolationScore st position color
      else calculateBlockingScore st position color)"

definition selectTopMovesByQuickHeuristic :: "BoardState \<Rightarrow> Move list \<Rightarrow> nat \<Rightarrow> Move list" where
  "selectTopMovesByQuickHeuristic st moves count =
     (if length moves \<le> count then moves
      else
        (let scoredMoves = map (\<lambda>m. (m, calculateScoreDelta st (applyMove st m) m)) moves
         in map fst (take count (sort_key (\<lambda>sm. - snd sm) scoredMoves))))"

definition estimateOrderBestMove :: "BoardState \<Rightarrow> int" where
  "estimateOrderBestMove st =
     (let currentScore = calculateFullBoardScore st;
          topMoves = selectTopMovesByQuickHeuristic st (getAllLegalMoves st) 50
      in fold (\<lambda>m bestScore.
                 (let sc = calculateFullBoardScore (applyMove st m) in
                  if sc > bestScore then sc else bestScore))
           topMoves currentScore)"

definition evaluateSpoilerPlacement :: "GameState \<Rightarrow> nat \<Rightarrow> Color \<Rightarrow> int" where
  "evaluateSpoilerPlacement gameState position color =
     (let newState = applyPlacement (state gameState) position color;
          patternBreaking = evaluatePatternBreaking newState position color;
          opportunityDenial = evaluateOpportunityDenial newState position;
          bagAwareness = evaluateBagAwareness newState position color;
          orderBestScore = estimateOrderBestMove newState
      in - patternBreaking * 50 + - opportunityDenial * 30 + - bagAwareness * 20
         + orderBestScore * 100)"

text \<open>
  \<open>formatChaosMove\<close> on a board index, and on \<open>undefined\<close> (the value of \<open>emptyPositions[0]\<close>
  when there is no empty cell): there \<open>Math.floor(undefined / 7)\<close> and \<open>undefined % 7\<close> are
  \<open>NaN\<close>, \<open>String.fromCharCode(97 + NaN)\<close> is the character with code 0 and \<open>NaN + 1\<close> prints
  as \<open>NaN\<close>.
\<close>

definition formatChaosMove :: "nat option \<Rightarrow> string" where
  "formatChaosMove position =
     (case position of
        Some p \<Rightarrow> indexToPosition p
      | None \<Rightarrow> char_of (0 :: nat) # ''NaN'')"

text \<open>The spoiler's \<open>chaosNextTurn\<close>: the first empty cell is the fallback, and a cell replaces
  the best one when its score is strictly lower.\<close>

definition chaosNextTurn :: "GameState \<Rightarrow> string" where
  "chaosNextTurn gameState =
     (let color = nextToken gameState;
          emptyPositions = getEmptyPositions (state gameState);
          fallback = (case emptyPositions of [] \<Rightarrow> None | p # ps \<Rightarrow> Some p);
          best = fold (\<lambda>position (bestPosition, lowestOrderPotential).
                         (let sc = Fin (of_int (evaluateSpoilerPlacement gameState position color))
                          in if numGt lowestOrderPotential sc then (Some position, sc)
                             else (bestPosition, lowestOrderPotential)))
                   emptyPositions (fallback, PosInf)
      in formatChaosMove (fst best))"

definition getPositionalValue :: "nat \<Rightarrow> Phase \<Rightarrow> int" where
  "getPositionalValue position phase =
     (let centerDist = \<bar>int (row (indexToCoords position)) - 3\<bar>
                     + \<bar>int (col (indexToCoords position)) - 3\<bar>
      in if phase = early then (6 - centerDist) * 2
         else if phase = mid then 5
         else 3)"

definition evaluateCompleteSpoilerPlacement :: "GameState \<Rightarrow> nat \<Rightarrow> int" where
  "evaluateCompleteSpoilerPlacement gameState position =
     (let color = nextToken gameState;
          st = state gameState;
          phase = determineGamePhase st;
          newState = applyPlacement st position color;
          patternBreaking = evaluatePatternBreaking st position color;
          opportunityDenial = evaluateOpportunityDenial newState position;
          bagAwareness = evaluateBagAwareness st position color;
          orderBestScore = estimateOrderBestMove newState;
          positional = getPositionalValue position phase
      in - patternBreaking * 50 + - opportunityDenial * 30 + - bagAwareness * 20
         + orderBestScore * 100 + - positional * 10)"

subsection \<open>The gap-creation (entropy) strategy\<close>

definition countColorRuns :: "Color list \<Rightarrow> int" where
  "countColorRuns sequence =
     fst (fold (\<lambda>color (runs, currentRun).
                  if color = Empty then (runs, currentRun)
                  else if Some color \<noteq> currentRun then (runs + 1, Some color)
                  else (runs, currentRun))
            sequence (0, None))"

definition evaluateColorFragmentation :: "BoardState \<Rightarrow> nat \<Rightarrow> Color \<Rightarrow> int" where
  "evaluateColorFragmentation st position color =
     (let r = row (indexToCoords position);
          c = col (indexToCoords position);
          rowColors = getRow st r;
          rowRunsBefore = countColorRuns rowColors;
          rowRunsAfter = countColorRuns (rowColors[c := color]);
          colColors = getColumn st c;
          colRunsBefore = countColorRuns colColors;
          colRunsAfter = countColorRuns (colColors[r := color])
      in (rowRunsAfter - rowRunsBefore) * 5 + (colRunsAfter - colRunsBefore) * 5)"

definition wouldBreakPalindrome :: "Color list \<Rightarrow> nat \<Rightarrow> Color \<Rightarrow> bool" where
  "wouldBreakPalindrome segment position color =
     (let mirror = length segment - 1 - position in
      if segment ! position = Empty \<and> segment ! mirror \<noteq> Empty
      then color \<noteq> segment ! mirror
      else False)"

definition lineBreaking :: "Color list \<Rightarrow> nat \<Rightarrow> Color \<Rightarrow> int" where
  \<comment> \<open>the pair of nested loops that \<open>checkPalindromeBreaking\<close> runs once over the row with the
      column of the cell and once over the column with its row\<close>
  "lineBreaking lineColors k color =
     (\<Sum>len \<leftarrow> [2..<8].
        \<Sum>start \<leftarrow> [0..<7 - len + 1].
          if k < start \<or> k \<ge> start + len then 0
          else if wouldBreakPalindrome (take len (drop start lineColors)) (k - start) color
          then int len else 0)"

definition checkPalindromeBreaking :: "BoardState \<Rightarrow> nat \<Rightarrow> Color \<Rightarrow> int" where
  "checkPalindromeBreaking st position color =
     (let r = row (indexToCoords position);
          c = col (indexToCoords position)
      in lineBreaking (getRow st r) c color + lineBreaking (getColumn st c) r color)"

definition evaluateSymmetryBreaking :: "BoardState \<Rightarrow> nat \<Rightarrow> Color \<Rightarrow> int" where
  "evaluateSymmetryBreaking st position color =
     (let r = row (indexToCoords position);
          c = col (indexToCoords position);
          mirrorColor = st ! (r * 7 + (6 - c));
          mirrorColorV = st ! ((6 - r) * 7 + c)
      in (if mirrorColor \<noteq> Empty \<and> mirrorColor \<noteq> color then 10
          else if mirrorColor = color then - 5 else 0)
         + (if mirrorColorV \<noteq> Empty \<and> mirrorColorV \<noteq> color then 10
            else if mirrorColorV = color then - 5 else 0)
         + checkPalindromeBreaking st position color)"

definition countEmptyToLeft :: "BoardState \<Rightarrow> nat \<Rightarrow> nat \<Rightarrow> nat" where
  "countEmptyToLeft st r c = length (takeWhile (\<lambda>k. st ! (r * 7 + k) = Empty) (rev [0..<c]))"

definition countEmptyToRight :: "BoardState \<Rightarrow> nat \<Rightarrow> nat \<Rightarrow> nat" where
  "countEmptyToRight st r c = length (takeWhile (\<lambda>k. st ! (r * 7 + k) = Empty) [c + 1..<7])"

definition countEmptyUp :: "BoardState \<Rightarrow> nat \<Rightarrow> nat \<Rightarrow> nat" where
  "countEmptyUp st r c = length (takeWhile (\<lambda>k. st ! (k * 7 + c) = Empty) (rev [0..<r]))"

definition countEmptyDown :: "BoardState \<Rightarrow> nat \<Rightarrow> nat \<Rightarrow> nat" where
  "countEmptyDown st r c = length (takeWhile (\<lambda>k. st ! (k * 7 + c) = Empty) [r + 1..<7])"

definition evaluateGapSpacing :: "BoardState \<Rightarrow> nat \<Rightarrow> int" where
  "evaluateGapSpacing st position =
     (let r = row (indexToCoords position);
          c = col (indexToCoords position)
      in (if countEmptyToLeft st r c mod 2 = 1 then 5 else 0)
         + (if countEmptyToRight st r c mod 2 = 1 then 5 else 0)
         + (if countEmptyUp st r c mod 2 = 1 then 5 else 0)
         + (if countEmptyDown st r c mod 2 = 1 then 5 else 0))"

text \<open>\<open>Math.floor(row / 2.33)\<close>: for the rows and columns 0 to 6 the quotient is not close to an
  integer, so the floor of the exact quotient by 233/100 is the floor of the double.\<close>

definition getZone :: "nat \<Rightarrow> nat" where
  "getZone position =
     (let zoneRow = nat \<lfloor>(of_nat (row (indexToCoords position)) :: rat) / (233 / 100)\<rfloor>;
          zoneCol = nat \<lfloor>(of_nat (col (indexToCoords position)) :: rat) / (233 / 100)\<rfloor>
      in min zoneRow 2 * 3 + min zoneCol 2)"

text \<open>A JavaScript \<open>Set\<close> is the list of its elements without repetition.\<close>

definition getColorsInZone :: "BoardState \<Rightarrow> nat \<Rightarrow> Color list" where
  "getColorsInZone st zone =
     (let zoneRow = zone div 3;
          zoneCol = zone mod 3;
          rowStart = zoneRow * 2;
          rowEnd = min (rowStart + 3) 7;
          colStart = zoneCol * 2;
          colEnd = min (colStart + 3) 7
      in fold (\<lambda>color colors.
                 if color \<noteq> Empty \<and> color \<notin> set colors then colors @ [color] else colors)
           (concat (map (\<lambda>r. map (\<lambda>c. st ! (r * 7 + c)) [colStart..<colEnd]) [rowStart..<rowEnd]))
           [])"

definition evaluateZoneControl :: "BoardState \<Rightarrow> nat \<Rightarrow> Color \<Rightarrow> int" where
  "evaluateZoneControl st position color =
     (let zoneColors = getColorsInZone st (getZone position) in
      if color \<notin> set zoneColors then 8
      else
        (let colorCount = int (length (filter (\<lambda>c. c = color) zoneColors)) in
         max 0 (5 - colorCount)))"

definition evaluateEdgeStrategy :: "BoardState \<Rightarrow> nat \<Rightarrow> Phase \<Rightarrow> int" where
  "evaluateEdgeStrategy st position phase =
     (let r = row (indexToCoords position);
          c = col (indexToCoords position);
          isEdge = (r = 0 \<or> r = 6 \<or> c = 0 \<or> c = 6);
          isCorner = ((r = 0 \<or> r = 6) \<and> (c = 0 \<or> c = 6));
          isCenter = (r \<ge> 2 \<and> r \<le> 4 \<and> c \<ge> 2 \<and> c \<le> 4)
      in if phase = early
         then (if isCenter then 10 else if isEdge then 5 else if isCorner then 3 else 7)
         else if phase = mid
         then (if isCenter then 8 else if isEdge then 6 else if isCorner then 4 else 7)
         else (if isEdge then 10 else if isCenter then 8 else if isCorner then 7 else 6))"

definition evaluateEntropy :: "GameState \<Rightarrow> nat \<Rightarrow> Color \<Rightarrow> int" where
  "evaluateEntropy gameState position color =
     (let st = state gameState;
          phase = determineGamePhase st;
          fragmentation = evaluateColorFragmentation st position color;
          symmetry = evaluateSymmetryBreaking st position color;
          gapSpacing = evaluateGapSpacing st position;
          zoneControl = evaluateZoneControl st position color;
          edgeStrategy = evaluateEdgeStrategy st position phase
      in fragmentation * 40 + symmetry * 35 + gapSpacing * 15 + zoneControl * 20
         + edgeStrategy * 10)"

subsection \<open>IEEE double arithmetic\<close>

text \<open>
  The hybrid strategy divides its two integer scores by 100 and blends them with the weights
  0.4, 0.6, 0.8 and 0.2, so its comparisons depend on the rounding of IEEE doubles. A double
  is modelled by the rational it denotes. \<open>roundDouble\<close> rounds a rational to the nearest
  double (53 significant bits, ties to the even significand, subnormals below the exponent
  -1074); every arithmetic operation of the source is the exact operation followed by this
  rounding, and a decimal literal is its nearest double. Overflow to an infinity is not
  modelled: the scores of a 49-cell board are far below the largest double.
\<close>

function bitLength :: "int \<Rightarrow> int" where
  "bitLength n = (if n \<le> 0 then 0 else 1 + bitLength (n div 2))"
  by pat_completeness auto
termination
  by (relation "measure (\<lambda>n. nat n)") auto

declare bitLength.simps [simp del]

definition pow2 :: "int \<Rightarrow> rat" where
  "pow2 e = (if e \<ge> 0 then 2 ^ nat e else 1 / 2 ^ nat (- e))"

definition roundHalfEven :: "rat \<Rightarrow> int" where
  "roundHalfEven y =
     (let f = \<lfloor>y\<rfloor>; r = y - of_int f in
      if r < 1 / 2 then f
      else if r > 1 / 2 then f + 1
      else if even f then f else f + 1)"

text \<open>The binary exponent of a positive rational \<open>x\<close>: the integer \<open>e\<close> with
  \<open>2 ^ e \<le> x < 2 ^ (e + 1)\<close>, found from the bit lengths of numerator and denominator.\<close>

definition binaryExponent :: "rat \<Rightarrow> int" where
  "binaryExponent x =
     (case quotient_of x of (p, q) \<Rightarrow>
        (let d = bitLength p - bitLength q in
         if pow2 d \<le> x then d else d - 1))"

definition roundDouble :: "rat \<Rightarrow> rat" where
  "roundDouble x =
     (if x = 0 then 0
      else
        (let a = \<bar>x\<bar>;
             e = max (binaryExponent a - 52) (- 1074);
             m = roundHalfEven (a / pow2 e)
         in sgn x * of_int m * pow2 e))"

definition doubleMul :: "rat \<Rightarrow> rat \<Rightarrow> rat" where
  "doubleMul a b = roundDouble (a * b)"

definition doubleDiv :: "rat \<Rightarrow> rat \<Rightarrow> rat" where
  "doubleDiv a b = roundDouble (a / b)"

definition doubleAdd :: "rat \<Rightarrow> rat \<Rightarrow> rat" where
  "doubleAdd a b = roundDouble (a + b)"

subsection \<open>The hybrid strategy\<close>

text \<open>
  The two integer scores are exact as doubles; the division by 100, the two products and the
  sum are rounded as the source's double arithmetic rounds them, so that nearly tied cells
  compare as they do in the program.
\<close>

definition chaosNextTurnHybrid :: "GameState \<Rightarrow> string" where
  "chaosNextTurnHybrid gameState =
     (let color = nextToken gameState;
          phase = determineGamePhase (state gameState);
          emptyPositions = getEmptyPositions (state gameState);
          spoilerWeight = (case phase of early \<Rightarrow> roundDouble (4 / 10)
                                       | mid \<Rightarrow> roundDouble (6 / 10)
                                       | late \<Rightarrow> roundDouble (8 / 10));
          gapWeight = (case phase of early \<Rightarrow> roundDouble (6 / 10)
                                   | mid \<Rightarrow> roundDouble (4 / 10)
                                   | late \<Rightarrow> roundDouble (2 / 10));
          fallback = (case emptyPositions of [] \<Rightarrow> None | p # ps \<Rightarrow> Some p);
          best = fold (\<lambda>position (bestPosition, bestScore).
                         (let spoilerScore =
                                - (of_int (evaluateCompleteSpoilerPlacement gameState position)
                                     :: rat);
                              gapScore = (of_int (evaluateEntropy gameState position color) :: rat);
                              normalizedSpoiler = doubleDiv spoilerScore 100;
                              normalizedGap = doubleDiv gapScore 100;
                              combinedScore =
                                doubleAdd (doubleMul normalizedSpoiler spoilerWeight)
                                  (doubleMul normalizedGap gapWeight)
                          in if numGt (Fin combinedScore) bestScore
                             then (Some position, Fin combinedScore)
                             else (bestPosition, bestScore)))
                   emptyPositions (fallback, NegInf)
      in formatChaosMove (fst best))"

text \<open>A syntactically valid cell address: a row letter from \<open>a\<close> to \<open>g\<close> (codes 97 to 103)
  followed by a column digit from \<open>1\<close> to \<open>7\<close> (codes 49 to 55).\<close>

definition validPosition :: "string \<Rightarrow> bool" where
  "validPosition pos \<longleftrightarrow>
     length pos = 2 \<and>
     (97 :: nat) \<le> of_char (pos ! 0) \<and> of_char (pos ! 0) \<le> (103 :: nat) \<and>
     (49 :: nat) \<le> of_char (pos ! 1) \<and> of_char (pos ! 1) \<le> (55 :: nat)"

section \<open>The weighted sum of the evaluator, in the words of the specification\<close>

text \<open>
  The specification describes the mover-side evaluator as a weighted sum of six components
  with default weights: immediate score 100, pattern potential 50, board control 30,
  opponent-opportunity penalty -40, announced-colour preparation 20 and line fertility 25.
\<close>

definition weightedSum :: "rat list \<Rightarrow> rat list \<Rightarrow> rat" where
  "weightedSum weights components = (\<Sum>(w, v) \<leftarrow> zip weights components. v * w)"

definition DEFAULT_WEIGHTS :: "rat list" where
  "DEFAULT_WEIGHTS = [100, 50, 30, - 40, 20, 25]"

definition sixComponents :: "GameState \<Rightarrow> rat list" where
  "sixComponents gameState =
     [of_int (calculateFullBoardScore (state gameState)),
      of_int (calculatePatternPotential (state gameState)),
      calculateBoardControlHeuristic (state gameState),
      calculateChaosOpportunities (state gameState),
      of_int (analyzeColorDistribution (state gameState) (nextToken gameState)),
      calculateFertility (state gameState)]"

section \<open>Legal slides, in the words of the specification\<close>

text \<open>
  A slide is legal when its origin holds a piece, its destination is another cell of the same
  row or of the same column, and every cell after the origin up to and including the
  destination is empty. \<open>onSegment a b k\<close> says that cell \<open>k\<close> lies on the straight line from
  \<open>a\<close> to \<open>b\<close>, origin excluded and destination included.
\<close>

definition onSegment :: "nat \<Rightarrow> nat \<Rightarrow> nat \<Rightarrow> bool" where
  "onSegment a b k \<longleftrightarrow>
     k \<noteq> a \<and> min a b \<le> k \<and> k \<le> max a b \<and>
     ((a div 7 = b div 7 \<and> k div 7 = a div 7) \<or> (a mod 7 = b mod 7 \<and> k mod 7 = a mod 7))"

definition legalSlide :: "BoardState \<Rightarrow> Move \<Rightarrow> bool" where
  "legalSlide st m \<longleftrightarrow>
     fromIdx m < 49 \<and> toIdx m < 49 \<and> fromIdx m \<noteq> toIdx m \<and>
     st ! fromIdx m \<noteq> Empty \<and>
     (fromIdx m div 7 = toIdx m div 7 \<or> fromIdx m mod 7 = toIdx m mod 7) \<and>
     list_all (\<lambda>k. onSegment (fromIdx m) (toIdx m) k \<longrightarrow> st ! k = Empty) [0..<49]"

section \<open>Verification: auxiliary facts\<close>

subsection \<open>Scoring is invariant under an injective renaming of colours\<close>

lemma isPalindrome_map:
  assumes "inj_on f (set xs)"
  shows "isPalindrome (map f xs) = isPalindrome xs"
proof -
  have "\<And>i. i < length xs div 2 \<Longrightarrow>
      (map f xs ! i = map f xs ! (length xs - 1 - i)) = (xs ! i = xs ! (length xs - 1 - i))"
  proof -
    fix i assume i: "i < length xs div 2"
    then have a: "i < length xs" and b: "length xs - 1 - i < length xs" by auto
    show "(map f xs ! i = map f xs ! (length xs - 1 - i)) = (xs ! i = xs ! (length xs - 1 - i))"
      using a b assms by (simp add: inj_on_eq_iff)
  qed
  then show ?thesis
    by (simp add: isPalindrome_def list_all_iff)
qed

lemma signatureLoop_map:
  assumes "inj_on f A" and "set xs \<subseteq> A" and "\<forall>c\<in>A. m' (f c) = m c"
  shows "signatureLoop m' n sig (map f xs) = signatureLoop m n sig xs"
  using assms
proof (induction xs arbitrary: m m' n sig)
  case Nil
  then show ?case by simp
next
  case (Cons c cs)
  have cA: "c \<in> A" and csA: "set cs \<subseteq> A" using Cons.prems(2) by auto
  have eq: "m' (f c) = m c" using Cons.prems(3) cA by blast
  show ?case
  proof (cases "m c")
    case None
    have upd: "\<And>l. \<forall>d\<in>A. (m'(f c \<mapsto> l)) (f d) = (m(c \<mapsto> l)) d"
      using Cons.prems(1,3) cA by (auto simp: inj_on_eq_iff)
    show ?thesis
      using None eq Cons.IH [OF Cons.prems(1) csA upd] by (simp del: fun_upd_apply)
  next
    case (Some l)
    show ?thesis
      using Some eq Cons.IH [OF Cons.prems(1) csA Cons.prems(3)] by simp
  qed
qed

lemma getPalindromeSignature_map:
  "inj_on f (set xs) \<Longrightarrow> getPalindromeSignature (map f xs) = getPalindromeSignature xs"
  unfolding getPalindromeSignature_def
  by (rule signatureLoop_map [where A = "set xs"]) auto

lemma scorePalindrome_map:
  "inj_on f (set xs) \<Longrightarrow> scorePalindrome (map f xs) = scorePalindrome xs"
  by (simp add: scorePalindrome_def getPalindromeSignature_map split: option.split)

lemma scoreSequence_map:
  assumes inj: "inj_on f (insert Empty (set xs))" and fe: "f Empty = Empty"
  shows "scoreSequence (map f xs) = scoreSequence xs"
proof -
  let ?F = "filter (\<lambda>c. c \<noteq> Empty) xs"
  have ne: "\<And>c. c \<in> set xs \<Longrightarrow> (f c \<noteq> Empty) = (c \<noteq> Empty)"
    using inj fe by (metis inj_on_eq_iff insertI1 insertI2)
  have fl: "filter (\<lambda>c. c \<noteq> Empty) (map f xs) = map f ?F"
    by (simp add: filter_map comp_def ne cong: filter_cong)
  have sub: "\<And>len start. inj_on f (set (take len (drop start ?F)))"
  proof -
    fix len start
    have "set (take len (drop start ?F)) \<subseteq> insert Empty (set xs)"
      by (meson filter_is_subset set_drop_subset set_take_subset subset_insertI2 subset_trans)
    then show "inj_on f (set (take len (drop start ?F)))"
      using inj inj_on_subset by blast
  qed
  have body: "\<And>len start.
      (let substring = take len (drop start (map f ?F)) in
         if isPalindrome substring then scorePalindrome substring else 0) =
      (let substring = take len (drop start ?F) in
         if isPalindrome substring then scorePalindrome substring else 0)"
    by (simp add: take_map drop_map isPalindrome_map scorePalindrome_map sub)
  show ?thesis
    unfolding scoreSequence_def fl Let_def
    using body [unfolded Let_def] by simp
qed

lemma scoreSequence_filled:
  "scoreSequence (filter (\<lambda>c. c \<noteq> Empty) xs) = scoreSequence xs"
  by (simp add: scoreSequence_def)

subsection \<open>Incremental scoring against the full-board score\<close>

lemma line_sum_diff:
  fixes A B :: "nat \<Rightarrow> int"
  assumes fr: "fr < 7" and tr: "tr < 7"
    and same: "\<And>r. r < 7 \<Longrightarrow> r \<noteq> fr \<Longrightarrow> r \<noteq> tr \<Longrightarrow> A r = B r"
  shows "(\<Sum>r \<leftarrow> [0..<7]. A r) - (\<Sum>r \<leftarrow> [0..<7]. B r)
       = (A fr - B fr) + (if tr \<noteq> fr then A tr - B tr else 0)"
proof -
  let ?D = "\<lambda>r. A r - B r"
  have "(\<Sum>r \<leftarrow> [0..<7]. A r) - (\<Sum>r \<leftarrow> [0..<7]. B r) = sum ?D {0..<7}"
    by (simp add: interv_sum_list_conv_sum_set_nat sum_subtractf)
  also have "\<dots> = sum ?D {fr, tr}"
    using fr tr same by (intro sum.mono_neutral_right) auto
  also have "\<dots> = (A fr - B fr) + (if tr \<noteq> fr then A tr - B tr else 0)"
    by simp
  finally show ?thesis .
qed

lemma getRow_update_other:
  assumes "r < 7" "r \<noteq> f div 7" "r \<noteq> t div 7"
  shows "getRow ((st[t := x])[f := y]) r = getRow st r"
proof -
  have "\<And>c. c < 7 \<Longrightarrow> f \<noteq> r * 7 + c \<and> t \<noteq> r * 7 + c"
    using assms by auto
  then show ?thesis
    by (simp add: getRow_def)
qed

lemma getColumn_update_other:
  assumes "c < 7" "c \<noteq> f mod 7" "c \<noteq> t mod 7"
  shows "getColumn ((st[t := x])[f := y]) c = getColumn st c"
proof -
  have "\<And>r. f \<noteq> r * 7 + c \<and> t \<noteq> r * 7 + c"
    using assms by auto
  then show ?thesis
    by (simp add: getColumn_def)
qed

lemma score_delta_two_cells:
  assumes f: "fromIdx move < 49" and t: "toIdx move < 49"
  shows "calculateScoreDelta st ((st[toIdx move := x])[fromIdx move := y]) move
       = calculateFullBoardScore ((st[toIdx move := x])[fromIdx move := y])
         - calculateFullBoardScore st"
proof -
  let ?f = "fromIdx move" and ?t = "toIdx move"
  let ?new = "(st[?t := x])[?f := y]"
  have fr: "?f div 7 < 7" and tr: "?t div 7 < 7" using f t by auto
  have fc: "?f mod 7 < 7" and tc: "?t mod 7 < 7" by auto
  have rows: "(\<Sum>r \<leftarrow> [0..<7]. scoreSequence (getRow ?new r))
            - (\<Sum>r \<leftarrow> [0..<7]. scoreSequence (getRow st r))
      = (scoreSequence (getRow ?new (?f div 7)) - scoreSequence (getRow st (?f div 7)))
        + (if ?t div 7 \<noteq> ?f div 7
           then scoreSequence (getRow ?new (?t div 7)) - scoreSequence (getRow st (?t div 7))
           else 0)"
    by (rule line_sum_diff [OF fr tr]) (simp add: getRow_update_other)
  have cols: "(\<Sum>c \<leftarrow> [0..<7]. scoreSequence (getColumn ?new c))
            - (\<Sum>c \<leftarrow> [0..<7]. scoreSequence (getColumn st c))
      = (scoreSequence (getColumn ?new (?f mod 7)) - scoreSequence (getColumn st (?f mod 7)))
        + (if ?t mod 7 \<noteq> ?f mod 7
           then scoreSequence (getColumn ?new (?t mod 7)) - scoreSequence (getColumn st (?t mod 7))
           else 0)"
    by (rule line_sum_diff [OF fc tc]) (simp add: getColumn_update_other)
  have "calculateFullBoardScore ?new - calculateFullBoardScore st
      = ((\<Sum>r \<leftarrow> [0..<7]. scoreSequence (getRow ?new r))
            - (\<Sum>r \<leftarrow> [0..<7]. scoreSequence (getRow st r)))
      + ((\<Sum>c \<leftarrow> [0..<7]. scoreSequence (getColumn ?new c))
            - (\<Sum>c \<leftarrow> [0..<7]. scoreSequence (getColumn st c)))"
    unfolding calculateFullBoardScore_def by linarith
  also note rows
  also note cols
  finally show ?thesis
    by (simp add: calculateScoreDelta_def indexToCoords_def Let_def)
qed

lemma probe_sound:
  "m \<in> set (probe st d i r c) \<Longrightarrow> fromIdx m = i \<and> toIdx m < 49"
proof (induction st d i r c rule: probe.induct)
  case (1 st d fromI r c)
  show ?case
  proof (cases "isValidCoord (r + dRow d) (c + dCol d) \<and>
                st ! coordsToIndex (nat (r + dRow d)) (nat (c + dCol d)) = Empty")
    case True
    then have valid: "isValidCoord (r + dRow d) (c + dCol d)" by simp
    have "coordsToIndex (nat (r + dRow d)) (nat (c + dCol d)) < 49"
      using valid by (auto simp: isValidCoord_def coordsToIndex_def)
    then show ?thesis
      using True "1.prems" "1.IH" by (subst (asm) probe.simps) auto
  next
    case False
    then show ?thesis
      using "1.prems" by (subst (asm) probe.simps) (auto split: if_splits)
  qed
qed

lemma generateLegalMoves_sound:
  assumes "m \<in> set (generateLegalMoves st)"
  shows "fromIdx m < 49 \<and> toIdx m < 49 \<and> st ! fromIdx m \<noteq> Empty"
  using assms probe_sound
  by (fastforce simp: generateLegalMoves_def split: if_splits)

text \<open>
  C5: for every board and every legal slide, the incremental delta over the affected rows
  and columns is the full-board score after the slide minus the full-board score before it.
\<close>

theorem score_delta_matches_full:
  assumes "length st = 49" and "move \<in> set (generateLegalMoves st)"
  shows "calculateScoreDelta st (applyMove st move) move
       = calculateFullBoardScore (applyMove st move) - calculateFullBoardScore st"
proof -
  have "fromIdx move < 49" "toIdx move < 49"
    using generateLegalMoves_sound [OF assms(2)] by auto
  then show ?thesis
    using score_delta_two_cells [of move st "st ! fromIdx move" Empty]
    by (simp add: applyMove_def)
qed

subsection \<open>Move generation: soundness and bounds\<close>

lemma probe_length:
  assumes "isValidCoord r c"
  shows "int (length (probe st d i r c))
       \<le> (case d of Up \<Rightarrow> r | Down \<Rightarrow> 6 - r | Left \<Rightarrow> c | Right \<Rightarrow> 6 - c)"
  using assms
proof (induction st d i r c rule: probe.induct)
  case (1 st d fromI r c)
  show ?case
  proof (cases "isValidCoord (r + dRow d) (c + dCol d) \<and>
                st ! coordsToIndex (nat (r + dRow d)) (nat (c + dCol d)) = Empty")
    case True
    then have "int (length (probe st d fromI (r + dRow d) (c + dCol d)))
       \<le> (case d of Up \<Rightarrow> r + dRow d | Down \<Rightarrow> 6 - (r + dRow d)
                    | Left \<Rightarrow> c + dCol d | Right \<Rightarrow> 6 - (c + dCol d))"
      using "1.IH" by simp
    then show ?thesis
      using True by (subst probe.simps) (auto split: Direction.splits)
  next
    case False
    then show ?thesis
      using "1.prems" by (subst probe.simps) (auto simp: isValidCoord_def split: Direction.splits)
  qed
qed

lemma getLegalMovesForPiece_length:
  assumes "i < 49"
  shows "length (getLegalMovesForPiece st i) \<le> 12"
proof -
  have vv: "isValidCoord (int (i div 7)) (int (i mod 7))"
    using assms by (simp add: isValidCoord_def)
  show ?thesis
    using probe_length [OF vv, of st Up i] probe_length [OF vv, of st Down i]
      probe_length [OF vv, of st Left i] probe_length [OF vv, of st Right i]
    by (simp add: getLegalMovesForPiece_def DIRECTIONS_def indexToCoords_def)
qed

lemma getLegalMovesForPiece_from:
  "m \<in> set (getLegalMovesForPiece st j) \<Longrightarrow> fromIdx m = j"
  using probe_sound
  by (fastforce simp: getLegalMovesForPiece_def split: if_splits)

lemma filter_concat_key:
  assumes "\<And>j m. m \<in> set (g j) \<Longrightarrow> key m = j" and "distinct xs" and "i \<in> set xs"
  shows "filter (\<lambda>m. key m = i) (concat (map g xs)) = g i"
  using assms(2,3)
proof (induction xs)
  case Nil
  then show ?case by simp
next
  case (Cons x xs)
  have none: "filter (\<lambda>m. key m = i) (g j) = []" if "j \<noteq> i" for j
    using assms(1) that by (auto simp: filter_empty_conv)
  have all: "filter (\<lambda>m. key m = i) (g i) = g i"
    using assms(1) by (auto simp: filter_id_conv)
  show ?case
  proof (cases "x = i")
    case True
    then have "i \<notin> set xs" using Cons.prems by simp
    then have "filter (\<lambda>m. key m = i) (concat (map g xs)) = []"
      using none by (auto simp: filter_empty_conv) (metis assms(1))
    then show ?thesis using True all by simp
  next
    case False
    then show ?thesis using Cons none by simp
  qed
qed

lemma generateLegalMoves_pieces:
  "generateLegalMoves st = concat (map (getLegalMovesForPiece st) [0..<49])"
  unfolding generateLegalMoves_def getLegalMovesForPiece_def ..

lemma generateLegalMoves_of_piece:
  assumes "i < 49"
  shows "filter (\<lambda>m. fromIdx m = i) (generateLegalMoves st) = getLegalMovesForPiece st i"
  unfolding generateLegalMoves_pieces
  by (rule filter_concat_key) (use assms getLegalMovesForPiece_from in auto)

lemma single_piece_moves:
  assumes "c \<noteq> Empty"
  shows "generateLegalMoves ((replicate 49 Empty)[24 := c])
       = map (\<lambda>t. \<lparr> fromIdx = 24, toIdx = t \<rparr>) [17, 10, 3, 31, 38, 45, 23, 22, 21, 25, 26, 27]"
  using assms by (cases c) (simp_all, code_simp+)

subsection \<open>Scoring claims\<close>

text \<open>
  C1: the claim that a line of seven identical colours scores exactly 77 and a line ABCBA
  exactly 8 fails on the code. 77 and 8 are the entries of the score table for these two
  signatures, and they are line totals that already include the nested sub-runs;
  \<open>scoreSequence\<close> adds a table entry for every palindromic sub-run, so it returns 378 for
  seven identical colours (6 * 2 + 5 * 7 + 4 * 16 + 3 * 30 + 2 * 50 + 77) and 11 for ABCBA
  (8 for ABCBA plus 3 for the nested BCB).
\<close>

theorem scoreSequence_counts_nested_runs_twice:
  "scoreSequence [R, R, R, R, R, R, R] = 378 \<and>
   scoreSequence [R, G, Y, G, R, Empty, Empty] = 11 \<and>
   map_of PALINDROME_SCORES (getPalindromeSignature [R, R, R, R, R, R, R]) = Some 77 \<and>
   map_of PALINDROME_SCORES (getPalindromeSignature [R, G, Y, G, R]) = Some 8"
  by code_simp

lemma scoreSequence_seven_R: "scoreSequence [R, R, R, R, R, R, R] = 378"
  by code_simp

lemma scoreSequence_RGYGR: "scoreSequence [R, G, Y, G, R] = 11"
  by code_simp

text \<open>
  The same values on every line of the two shapes, whatever the colours and wherever the
  empty cells are.
\<close>

lemma scoreSequence_on_AAAAAAA_and_ABCBA_lines:
  "(a \<noteq> Empty \<and> filter (\<lambda>x. x \<noteq> Empty) line = replicate 7 a \<longrightarrow> scoreSequence line = 378) \<and>
   (a \<noteq> Empty \<and> b \<noteq> Empty \<and> c \<noteq> Empty \<and> a \<noteq> b \<and> a \<noteq> c \<and> b \<noteq> c \<and>
      filter (\<lambda>x. x \<noteq> Empty) line' = [a, b, c, b, a] \<longrightarrow> scoreSequence line' = 11)"
proof (intro conjI impI)
  assume h: "a \<noteq> Empty \<and> filter (\<lambda>x. x \<noteq> Empty) line = replicate 7 a"
  let ?f = "\<lambda>x. if x = R then a else Empty"
  have inj: "inj_on ?f (insert Empty (set [R, R, R, R, R, R, R]))"
    using h by (auto simp: inj_on_def)
  have "scoreSequence line = scoreSequence (replicate 7 a)"
    using h scoreSequence_filled [of line] by simp
  also have "replicate 7 a = map ?f [R, R, R, R, R, R, R]"
    by (simp add: eval_nat_numeral)
  also have "scoreSequence \<dots> = scoreSequence [R, R, R, R, R, R, R]"
    using inj by (rule scoreSequence_map) simp
  finally show "scoreSequence line = 378"
    by (simp only: scoreSequence_seven_R)
next
  assume h: "a \<noteq> Empty \<and> b \<noteq> Empty \<and> c \<noteq> Empty \<and> a \<noteq> b \<and> a \<noteq> c \<and> b \<noteq> c \<and>
      filter (\<lambda>x. x \<noteq> Empty) line' = [a, b, c, b, a]"
  let ?f = "\<lambda>x. if x = R then a else if x = G then b else if x = Y then c else Empty"
  have inj: "inj_on ?f (insert Empty (set [R, G, Y, G, R]))"
    using h by (auto simp: inj_on_def)
  have "scoreSequence line' = scoreSequence [a, b, c, b, a]"
    using h scoreSequence_filled [of line'] by simp
  also have "[a, b, c, b, a] = map ?f [R, G, Y, G, R]"
    by simp
  also have "scoreSequence \<dots> = scoreSequence [R, G, Y, G, R]"
    using inj by (rule scoreSequence_map) simp
  finally show "scoreSequence line' = 11"
    by (simp only: scoreSequence_RGYGR)
qed

text \<open>
  C7: the score table maps each of the 30 palindrome signatures of lengths 2 to 7 to the
  points of the interface contract, it has no other entry, and \<open>scorePalindrome\<close> returns
  the length of the sequence for every signature that is absent from the table.
\<close>

theorem PALINDROME_SCORES_contract:
  "map (map_of PALINDROME_SCORES)
     [''AA'', ''ABA'', ''AAA'', ''ABBA'', ''AAAA'',
      ''ABCBA'', ''AABAA'', ''ABABA'', ''ABBBA'', ''AAAAA'',
      ''AABBAA'', ''ABAABA'', ''ABBBBA'', ''ABCCBA'', ''AAAAAA'',
      ''ABCDCBA'', ''AAABAAA'', ''AABABAA'', ''AABBBAA'', ''AABCBAA'', ''ABAAABA'',
      ''ABABABA'', ''ABACABA'', ''ABBABBA'', ''ABBBBBA'', ''ABBCBBA'', ''ABCACBA'',
      ''ABCBCBA'', ''ABCCCBA'', ''AAAAAAA'']
   = map Some
     [2, 3, 7, 6, 16,
      8, 12, 14, 12, 30,
      16, 18, 22, 12, 50,
      15, 29, 25, 23, 19, 25,
      27, 21, 27, 37, 19, 15,
      21, 19, 77] \<and>
   length PALINDROME_SCORES = 30 \<and> distinct (map fst PALINDROME_SCORES) \<and>
   (\<forall>seq. map_of PALINDROME_SCORES (getPalindromeSignature seq) = None
      \<longrightarrow> scorePalindrome seq = int (length seq))"
proof (intro conjI allI impI)
  show "map (map_of PALINDROME_SCORES)
     [''AA'', ''ABA'', ''AAA'', ''ABBA'', ''AAAA'',
      ''ABCBA'', ''AABAA'', ''ABABA'', ''ABBBA'', ''AAAAA'',
      ''AABBAA'', ''ABAABA'', ''ABBBBA'', ''ABCCBA'', ''AAAAAA'',
      ''ABCDCBA'', ''AAABAAA'', ''AABABAA'', ''AABBBAA'', ''AABCBAA'', ''ABAAABA'',
      ''ABABABA'', ''ABACABA'', ''ABBABBA'', ''ABBBBBA'', ''ABBCBBA'', ''ABCACBA'',
      ''ABCBCBA'', ''ABCCCBA'', ''AAAAAAA'']
   = map Some
     [2, 3, 7, 6, 16,
      8, 12, 14, 12, 30,
      16, 18, 22, 12, 50,
      15, 29, 25, 23, 19, 25,
      27, 21, 27, 37, 19, 15,
      21, 19, 77]"
    by code_simp
  show "length PALINDROME_SCORES = 30"
    by (simp add: PALINDROME_SCORES_def)
  show "distinct (map fst PALINDROME_SCORES)"
    by code_simp
  show "scorePalindrome seq = int (length seq)"
    if "map_of PALINDROME_SCORES (getPalindromeSignature seq) = None" for seq
    using that by (simp add: scorePalindrome_def)
qed

theorem PALINDROME_SCORES_contract_witness:
  "map_of PALINDROME_SCORES (getPalindromeSignature [R, G]) = None \<and> scorePalindrome [R, G] = 2"
proof -
  have h: "map_of PALINDROME_SCORES (getPalindromeSignature [R, G]) = None"
    by code_simp
  show ?thesis
    using h PALINDROME_SCORES_contract by auto
qed

lemma getRow_map:
  "length st = 49 \<Longrightarrow> r < 7 \<Longrightarrow> getRow (map f st) r = map f (getRow st r)"
  by (simp add: getRow_def)

lemma getColumn_map:
  "length st = 49 \<Longrightarrow> c < 7 \<Longrightarrow> getColumn (map f st) c = map f (getColumn st c)"
  by (simp add: getColumn_def)

lemma scoreSequence_inj:
  assumes "inj f" and "f Empty = Empty"
  shows "scoreSequence (map f xs) = scoreSequence xs"
proof (rule scoreSequence_map)
  show "inj_on f (insert Empty (set xs))"
    using assms(1) by (rule inj_on_subset) simp
  show "f Empty = Empty" by (rule assms(2))
qed

text \<open>
  C9: for every board and every permutation of the seven colours (a bijection on the cell
  values that keeps the empty marker), relabelling every cell leaves the total score unchanged.
\<close>

theorem score_color_relabeling:
  assumes "bij \<pi>" and "\<pi> Empty = Empty" and "length st = 49"
  shows "calculateFullBoardScore (map \<pi> st) = calculateFullBoardScore st"
proof -
  have inj: "inj \<pi>" using assms(1) by (rule bij_is_inj)
  have rows: "\<And>r. r \<in> set [0..<7] \<Longrightarrow>
      scoreSequence (getRow (map \<pi> st) r) = scoreSequence (getRow st r)"
    using assms(3) by (simp add: getRow_map scoreSequence_inj [OF inj assms(2)])
  have cols: "\<And>c. c \<in> set [0..<7] \<Longrightarrow>
      scoreSequence (getColumn (map \<pi> st) c) = scoreSequence (getColumn st c)"
    using assms(3) by (simp add: getColumn_map scoreSequence_inj [OF inj assms(2)])
  have "map (\<lambda>r. scoreSequence (getRow (map \<pi> st) r)) [0..<7]
      = map (\<lambda>r. scoreSequence (getRow st r)) [0..<7]"
    using rows by (intro map_cong) auto
  moreover have "map (\<lambda>c. scoreSequence (getColumn (map \<pi> st) c)) [0..<7]
      = map (\<lambda>c. scoreSequence (getColumn st c)) [0..<7]"
    using cols by (intro map_cong) auto
  ultimately show ?thesis
    unfolding calculateFullBoardScore_def by (simp only:)
qed

subsection \<open>Witnesses and move-generation claims\<close>

theorem score_color_relabeling_witness:
  "calculateFullBoardScore
     (map (\<lambda>c. if c = R then G else if c = G then R else c)
        ((replicate 49 Empty)[0 := R, 1 := G, 2 := R, 9 := G, 16 := G])) = 5 \<and>
   calculateFullBoardScore ((replicate 49 Empty)[0 := R, 1 := G, 2 := R, 9 := G, 16 := G]) = 5"
proof -
  let ?p = "\<lambda>c. if c = R then G else if c = G then R else c"
  let ?b = "(replicate 49 Empty)[0 := R, 1 := G, 2 := R, 9 := G, 16 := G]"
  have b: "bij ?p"
    by (rule involuntory_imp_bij) simp
  have e: "?p Empty = Empty" by simp
  have l: "length ?b = 49" by simp
  have v: "calculateFullBoardScore ?b = 5" by code_simp
  show ?thesis
    using score_color_relabeling [OF b e l] v by simp
qed

theorem score_delta_matches_full_witness:
  "calculateScoreDelta ((replicate 49 Empty)[0 := R, 3 := R, 22 := R])
      (applyMove ((replicate 49 Empty)[0 := R, 3 := R, 22 := R]) \<lparr> fromIdx = 22, toIdx = 21 \<rparr>)
      \<lparr> fromIdx = 22, toIdx = 21 \<rparr> = 2 \<and>
   calculateFullBoardScore
      (applyMove ((replicate 49 Empty)[0 := R, 3 := R, 22 := R]) \<lparr> fromIdx = 22, toIdx = 21 \<rparr>)
     - calculateFullBoardScore ((replicate 49 Empty)[0 := R, 3 := R, 22 := R]) = 2"
proof -
  let ?b = "(replicate 49 Empty)[0 := R, 3 := R, 22 := R]"
  let ?m = "\<lparr> fromIdx = 22, toIdx = 21 \<rparr>"
  have l: "length ?b = 49" by simp
  have m: "?m \<in> set (generateLegalMoves ?b)" by code_simp
  have v: "calculateScoreDelta ?b (applyMove ?b ?m) ?m = 2" by code_simp
  show ?thesis
    using score_delta_matches_full [OF l m] v by simp
qed

text \<open>
  C2, as stated, fails: a single piece on cell 24 of an otherwise empty board does not have
  24 slides. Cell 24 is row 3, column 3, with three cells on each side.
\<close>

theorem single_piece_moves_counterexample:
  "length (generateLegalMoves ((replicate 49 Empty)[24 := R])) \<noteq> 24"
  by code_simp

text \<open>
  C2 (amended): on a board that is empty except for a colour on cell 24 the generator yields
  exactly 12 slides of that piece, three in each of the four directions (up 17, 10, 3; down
  31, 38, 45; left 23, 22, 21; right 25, 26, 27); and on every board the generator yields
  between 0 and 24 destinations for every piece.
\<close>

theorem moves_per_piece:
  "(c \<noteq> Empty \<longrightarrow>
      generateLegalMoves ((replicate 49 Empty)[24 := c])
        = map (\<lambda>t. \<lparr> fromIdx = 24, toIdx = t \<rparr>)
            [17, 10, 3, 31, 38, 45, 23, 22, 21, 25, 26, 27] \<and>
      length (generateLegalMoves ((replicate 49 Empty)[24 := c])) = 12) \<and>
   (length st = 49 \<and> i < 49 \<longrightarrow>
      length (filter (\<lambda>m. fromIdx m = i) (generateLegalMoves st)) \<le> 24)"
proof (intro conjI impI)
  assume c: "c \<noteq> Empty"
  show "generateLegalMoves ((replicate 49 Empty)[24 := c])
        = map (\<lambda>t. \<lparr> fromIdx = 24, toIdx = t \<rparr>)
            [17, 10, 3, 31, 38, 45, 23, 22, 21, 25, 26, 27]"
    using c by (rule single_piece_moves)
  then show "length (generateLegalMoves ((replicate 49 Empty)[24 := c])) = 12"
    by simp
next
  assume "length st = 49 \<and> i < 49"
  then have i: "i < 49" by simp
  have "length (filter (\<lambda>m. fromIdx m = i) (generateLegalMoves st)) \<le> 12"
    using i by (simp add: generateLegalMoves_of_piece getLegalMovesForPiece_length)
  then show "length (filter (\<lambda>m. fromIdx m = i) (generateLegalMoves st)) \<le> 24"
    by simp
qed

theorem moves_per_piece_witness:
  "length (generateLegalMoves ((replicate 49 Empty)[24 := Y])) = 12 \<and>
   length (filter (\<lambda>m. fromIdx m = 0) (generateLegalMoves ((replicate 49 Empty)[0 := R, 3 := G])))
     \<le> 24"
  using moves_per_piece [where c = Y and i = 0 and st = "(replicate 49 Empty)[0 := R, 3 := G]"]
  by simp

subsection \<open>The position evaluators\<close>

text \<open>
  C10, as stated, fails for the evaluator that the minimax search calls: on the empty board
  it is -735, the six-component weighted sum is -780.
\<close>

theorem evaluatePositionMinimax_not_six_components:
  "evaluatePositionMinimax \<lparr> state = replicate 49 Empty, nextToken = R, turn = order \<rparr>
     \<noteq> weightedSum DEFAULT_WEIGHTS
         (sixComponents \<lparr> state = replicate 49 Empty, nextToken = R, turn = order \<rparr>)"
  by code_simp

text \<open>
  C10 (amended): for every game state the evaluator of the heuristic mover is the weighted sum
  of the six components with the default weights 100, 50, 30, -40, 20 and 25, and the
  evaluator of the minimax search is the weighted sum of four components (score, pattern
  potential, board control, opponent opportunities) with the weights 100, 50, 20 and -30.
\<close>

theorem evaluatePosition_weighted_sums:
  assumes "length (state gs) = 49"
  shows "evaluatePosition gs = weightedSum DEFAULT_WEIGHTS (sixComponents gs) \<and>
   evaluatePositionMinimax gs =
     weightedSum [100, 50, 20, - 30]
       [of_int (calculateFullBoardScore (state gs)),
        of_int (calculatePatternPotential (state gs)),
        calculateBoardControl (state gs),
        calculateChaosOpportunitiesMinimax (state gs)]"
  by (simp add: evaluatePosition_def evaluatePositionMinimax_def weightedSum_def
      DEFAULT_WEIGHTS_def sixComponents_def Let_def)

theorem evaluatePosition_weighted_sums_witness:
  "evaluatePosition \<lparr> state = replicate 49 Empty, nextToken = R, turn = order \<rparr> = - 780 \<and>
   evaluatePositionMinimax \<lparr> state = replicate 49 Empty, nextToken = R, turn = order \<rparr> = - 735"
proof -
  let ?gs = "\<lparr> state = replicate 49 Empty, nextToken = R, turn = order \<rparr>"
  have a: "weightedSum DEFAULT_WEIGHTS (sixComponents ?gs) = - 780"
    by code_simp
  have b: "weightedSum [100, 50, 20, - 30]
       [of_int (calculateFullBoardScore (state ?gs)),
        of_int (calculatePatternPotential (state ?gs)),
        calculateBoardControl (state ?gs),
        calculateChaosOpportunitiesMinimax (state ?gs)] = - 735"
    by code_simp
  have l: "length (state ?gs) = 49" by simp
  show ?thesis
    using evaluatePosition_weighted_sums [OF l] a b by (simp only:)
qed

subsection \<open>The placer's decision\<close>

lemma fold_select:
  assumes "\<And>x acc. fst (f x acc) = fst acc \<or> fst (f x acc) = Some x"
  shows "fst (fold f xs acc) = fst acc \<or> fst (fold f xs acc) \<in> Some ` set xs"
proof (induction xs arbitrary: acc)
  case Nil
  then show ?case by simp
next
  case (Cons x xs)
  from Cons.IH [of "f x acc"] assms [of x acc] show ?case
    by auto
qed

lemma fold_select_fallback:
  assumes "\<And>x acc. fst (f x acc) = fst acc \<or> fst (f x acc) = Some x"
    and "xs \<noteq> []"
  shows "fst (fold f xs (case xs of [] \<Rightarrow> None | p # ps \<Rightarrow> Some p, s)) \<in> Some ` set xs"
proof -
  obtain p ps where xs: "xs = p # ps" using assms(2) by (cases xs) auto
  show ?thesis
    using fold_select [of f xs "(Some p, s)", OF assms(1)] xs by auto
qed

lemma chaosNextTurn_choice:
  assumes "getEmptyPositions (state gs) \<noteq> []"
  shows "\<exists>p \<in> set (getEmptyPositions (state gs)). chaosNextTurn gs = indexToPosition p"
proof -
  let ?f = "\<lambda>position (bestPosition, lowestOrderPotential).
                         (let sc = Fin (of_int (evaluateSpoilerPlacement gs position (nextToken gs)))
                          in if numGt lowestOrderPotential sc then (Some position, sc)
                             else (bestPosition, lowestOrderPotential))"
  have step: "\<And>x acc. fst (?f x acc) = fst acc \<or> fst (?f x acc) = Some x"
    by (auto simp: Let_def split: prod.splits)
  have "fst (fold ?f (getEmptyPositions (state gs))
          (case getEmptyPositions (state gs) of [] \<Rightarrow> None | p # ps \<Rightarrow> Some p, PosInf))
        \<in> Some ` set (getEmptyPositions (state gs))"
    using step assms by (rule fold_select_fallback)
  then show ?thesis
    by (auto simp: chaosNextTurn_def Let_def formatChaosMove_def)
qed

lemma chaosNextTurnHybrid_choice:
  assumes "getEmptyPositions (state gs) \<noteq> []"
  shows "\<exists>p \<in> set (getEmptyPositions (state gs)). chaosNextTurnHybrid gs = indexToPosition p"
proof -
  define sw :: rat where
    "sw = (case determineGamePhase (state gs) of early \<Rightarrow> roundDouble (4 / 10)
             | mid \<Rightarrow> roundDouble (6 / 10) | late \<Rightarrow> roundDouble (8 / 10))"
  define gw :: rat where
    "gw = (case determineGamePhase (state gs) of early \<Rightarrow> roundDouble (6 / 10)
             | mid \<Rightarrow> roundDouble (4 / 10) | late \<Rightarrow> roundDouble (2 / 10))"
  let ?f = "\<lambda>position (bestPosition, bestScore).
                         (let spoilerScore =
                                - (of_int (evaluateCompleteSpoilerPlacement gs position)
                                     :: rat);
                              gapScore = (of_int (evaluateEntropy gs position (nextToken gs)) :: rat);
                              normalizedSpoiler = doubleDiv spoilerScore 100;
                              normalizedGap = doubleDiv gapScore 100;
                              combinedScore =
                                doubleAdd (doubleMul normalizedSpoiler sw)
                                  (doubleMul normalizedGap gw)
                          in if numGt (Fin combinedScore) bestScore
                             then (Some position, Fin combinedScore)
                             else (bestPosition, bestScore))"
  have step: "\<And>x acc. fst (?f x acc) = fst acc \<or> fst (?f x acc) = Some x"
    by (auto simp: Let_def split: prod.splits)
  have "fst (fold ?f (getEmptyPositions (state gs))
          (case getEmptyPositions (state gs) of [] \<Rightarrow> None | p # ps \<Rightarrow> Some p, NegInf))
        \<in> Some ` set (getEmptyPositions (state gs))"
    using step assms by (rule fold_select_fallback)
  then show ?thesis
    by (auto simp: chaosNextTurnHybrid_def Let_def formatChaosMove_def sw_def gw_def)
qed

text \<open>
  The rounding decides between nearly tied cells. With the late-game weights the scores
  (-2710, 3840) and (-2760, 4040) blend to -14 exactly in the rationals; in doubles the
  first blend is -14.000000000000004 and the second -14.000000000000002, so the second cell
  is strictly better.
\<close>

lemma hybrid_blend_rounding:
  "doubleAdd (doubleMul (doubleDiv (- 2710) 100) (roundDouble (8 / 10)))
             (doubleMul (doubleDiv 3840 100) (roundDouble (2 / 10)))
     = - 3940649673949185 / 281474976710656 \<and>
   doubleAdd (doubleMul (doubleDiv (- 2760) 100) (roundDouble (8 / 10)))
             (doubleMul (doubleDiv 4040 100) (roundDouble (2 / 10)))
     = - 7881299347898369 / 562949953421312 \<and>
   (- 3940649673949185 / 281474976710656 :: rat) < - 7881299347898369 / 562949953421312"
  by code_simp

lemma indexToPosition_valid:
  assumes "p < 49"
  shows "validPosition (indexToPosition p) \<and> positionToIndex (indexToPosition p) = int p"
proof -
  have r: "p div 7 < 7" using assms by auto
  have c: "p mod 7 < 7" by auto
  have a: "of_char (char_of (97 + p div 7)) = 97 + p div 7"
    using r by simp
  have b: "of_char (char_of (48 + (p mod 7 + 1))) = 48 + (p mod 7 + 1)"
    using c by simp
  have e: "int (p div 7) * 7 + int (p mod 7) = int p"
    by presburger
  have c': "p mod 7 \<le> 6" using c by simp
  show ?thesis
    using a b r c' e by (simp add: validPosition_def indexToPosition_def positionToIndex_def)
qed

text \<open>
  C8, as stated, fails on a board without an empty cell: the fallback \<open>emptyPositions[0]\<close> is
  \<open>undefined\<close> and the result is not a cell address.
\<close>

theorem chaosNextTurn_full_board_counterexample:
  "\<not> validPosition (chaosNextTurn \<lparr> state = replicate 49 R, nextToken = B, turn = chaos \<rparr>) \<and>
   \<not> validPosition
       (chaosNextTurnHybrid \<lparr> state = replicate 49 R, nextToken = B, turn = chaos \<rparr>)"
proof -
  have e: "getEmptyPositions (replicate 49 R) = []"
    by code_simp
  have spoiler: "chaosNextTurn \<lparr> state = replicate 49 R, nextToken = B, turn = chaos \<rparr>
      = char_of (0 :: nat) # ''NaN''"
    by (simp add: chaosNextTurn_def e formatChaosMove_def Let_def)
  have hybrid: "chaosNextTurnHybrid \<lparr> state = replicate 49 R, nextToken = B, turn = chaos \<rparr>
      = char_of (0 :: nat) # ''NaN''"
    by (simp add: chaosNextTurnHybrid_def e formatChaosMove_def Let_def)
  have "\<not> validPosition (char_of (0 :: nat) # ''NaN'')"
    by (simp add: validPosition_def)
  then show ?thesis
    unfolding spoiler hybrid by simp
qed

text \<open>
  C8 (amended): for every game state whose board has at least one empty cell, the placer's
  decision function (the spoiler's \<open>chaosNextTurn\<close> and the hybrid) returns a syntactically valid
  cell address, and the cell it denotes is empty on the input board.
\<close>

theorem chaosNextTurn_valid_empty_cell:
  assumes "length (state gs) = 49" and "getEmptyPositions (state gs) \<noteq> []"
  shows "validPosition (chaosNextTurn gs) \<and>
         0 \<le> positionToIndex (chaosNextTurn gs) \<and> positionToIndex (chaosNextTurn gs) < 49 \<and>
         state gs ! nat (positionToIndex (chaosNextTurn gs)) = Empty \<and>
         validPosition (chaosNextTurnHybrid gs) \<and>
         0 \<le> positionToIndex (chaosNextTurnHybrid gs) \<and>
         positionToIndex (chaosNextTurnHybrid gs) < 49 \<and>
         state gs ! nat (positionToIndex (chaosNextTurnHybrid gs)) = Empty"
proof -
  obtain p where p: "p \<in> set (getEmptyPositions (state gs))"
      and pe: "chaosNextTurn gs = indexToPosition p"
    using chaosNextTurn_choice [OF assms(2)] by blast
  obtain q where q: "q \<in> set (getEmptyPositions (state gs))"
      and qe: "chaosNextTurnHybrid gs = indexToPosition q"
    using chaosNextTurnHybrid_choice [OF assms(2)] by blast
  have p49: "p < 49" and pE: "state gs ! p = Empty"
    using p by (auto simp: getEmptyPositions_def)
  have q49: "q < 49" and qE: "state gs ! q = Empty"
    using q by (auto simp: getEmptyPositions_def)
  show ?thesis
    using indexToPosition_valid [OF p49] indexToPosition_valid [OF q49] p49 q49 pE qE
    by (simp add: pe qe)
qed

theorem chaosNextTurn_valid_empty_cell_witness:
  "validPosition
     (chaosNextTurn \<lparr> state = (replicate 49 R)[5 := Empty, 17 := G, 30 := Empty, 48 := Empty],
                      nextToken = B, turn = chaos \<rparr>) \<and>
   (replicate 49 R)[5 := Empty, 17 := G, 30 := Empty, 48 := Empty] !
     nat (positionToIndex
       (chaosNextTurn \<lparr> state = (replicate 49 R)[5 := Empty, 17 := G, 30 := Empty, 48 := Empty],
                        nextToken = B, turn = chaos \<rparr>))
     = Empty \<and>
   validPosition
     (chaosNextTurnHybrid
        \<lparr> state = (replicate 49 R)[5 := Empty, 17 := G, 30 := Empty, 48 := Empty],
          nextToken = B, turn = chaos \<rparr>) \<and>
   (replicate 49 R)[5 := Empty, 17 := G, 30 := Empty, 48 := Empty] !
     nat (positionToIndex
       (chaosNextTurnHybrid
          \<lparr> state = (replicate 49 R)[5 := Empty, 17 := G, 30 := Empty, 48 := Empty],
            nextToken = B, turn = chaos \<rparr>))
     = Empty"
proof -
  let ?gs = "\<lparr> state = (replicate 49 R)[5 := Empty, 17 := G, 30 := Empty, 48 := Empty],
              nextToken = B, turn = chaos \<rparr>"
  have l: "length (state ?gs) = 49" by simp
  have e: "getEmptyPositions (state ?gs) \<noteq> []" by code_simp
  show ?thesis
    using chaosNextTurn_valid_empty_cell [OF l e] by simp
qed

subsection \<open>Generated slides are legal slides\<close>

lemma probe_path:
  assumes "m \<in> set (probe st d i r c)"
  shows "\<exists>k\<ge>1. toIdx m = coordsToIndex (nat (r + k * dRow d)) (nat (c + k * dCol d)) \<and>
           (\<forall>j. 1 \<le> j \<and> j \<le> k \<longrightarrow>
              isValidCoord (r + j * dRow d) (c + j * dCol d) \<and>
              st ! coordsToIndex (nat (r + j * dRow d)) (nat (c + j * dCol d)) = Empty)"
  using assms
proof (induction st d i r c rule: probe.induct)
  case (1 st d fromI r c)
  let ?r = "r + dRow d" and ?c = "c + dCol d"
  have ok: "isValidCoord ?r ?c" and emp: "st ! coordsToIndex (nat ?r) (nat ?c) = Empty"
    and mem: "m = \<lparr> fromIdx = fromI, toIdx = coordsToIndex (nat ?r) (nat ?c) \<rparr>
              \<or> m \<in> set (probe st d fromI ?r ?c)"
    using "1.prems" by (subst (asm) probe.simps; simp split: if_splits)+
  from mem show ?case
  proof
    assume "m = \<lparr> fromIdx = fromI, toIdx = coordsToIndex (nat ?r) (nat ?c) \<rparr>"
    then have t1: "toIdx m = coordsToIndex (nat (r + 1 * dRow d)) (nat (c + 1 * dCol d))"
      by simp
    have "\<And>j::int. 1 \<le> j \<and> j \<le> 1 \<Longrightarrow> j = 1" by simp
    then have p1: "\<forall>j. 1 \<le> j \<and> j \<le> 1 \<longrightarrow>
              isValidCoord (r + j * dRow d) (c + j * dCol d) \<and>
              st ! coordsToIndex (nat (r + j * dRow d)) (nat (c + j * dCol d)) = Empty"
      using ok emp by (metis mult_1)
    show ?thesis
      using t1 p1 by (intro exI [of _ 1]) simp
  next
    assume "m \<in> set (probe st d fromI ?r ?c)"
    then obtain k where k: "k \<ge> 1"
        and t: "toIdx m = coordsToIndex (nat (?r + k * dRow d)) (nat (?c + k * dCol d))"
        and p: "\<And>j. 1 \<le> j \<Longrightarrow> j \<le> k \<Longrightarrow>
              isValidCoord (?r + j * dRow d) (?c + j * dCol d) \<and>
              st ! coordsToIndex (nat (?r + j * dRow d)) (nat (?c + j * dCol d)) = Empty"
      using "1.IH" ok emp by blast
    have shift: "\<And>j. ?r + j * dRow d = r + (j + 1) * dRow d \<and> ?c + j * dCol d = c + (j + 1) * dCol d"
      by (simp add: algebra_simps)
    show ?thesis
    proof (intro exI [of _ "k + 1"] conjI allI impI)
      show "1 \<le> k + 1" using k by simp
      show "toIdx m = coordsToIndex (nat (r + (k + 1) * dRow d)) (nat (c + (k + 1) * dCol d))"
        using t shift [of k] by simp
    next
      fix j :: int assume j: "1 \<le> j \<and> j \<le> k + 1"
      show "isValidCoord (r + j * dRow d) (c + j * dCol d)"
      proof (cases "j = 1")
        case True then show ?thesis using ok by simp
      next
        case False
        then show ?thesis using p [of "j - 1"] shift [of "j - 1"] j by simp
      qed
      show "st ! coordsToIndex (nat (r + j * dRow d)) (nat (c + j * dCol d)) = Empty"
      proof (cases "j = 1")
        case True then show ?thesis using emp by simp
      next
        case False
        then show ?thesis using p [of "j - 1"] shift [of "j - 1"] j by simp
      qed
    qed
  qed
qed

lemma cell_of_coords:
  assumes "0 \<le> r" "0 \<le> c"
  shows "int (coordsToIndex (nat r) (nat c)) = r * 7 + c"
  using assms by (simp add: coordsToIndex_def)

text \<open>The path of a probe in index arithmetic: the \<open>j\<close>-th cell from cell \<open>i\<close> in a direction
  has the index \<open>i + j * (7 * dRow d + dCol d)\<close>.\<close>

lemma legal_from_path:
  assumes i: "i < 49" and occ: "st ! i \<noteq> Empty" and k: "(1::int) \<le> k"
    and fr: "fromIdx m = i"
    and to: "toIdx m = coordsToIndex (nat (int (i div 7) + k * dRow d))
                        (nat (int (i mod 7) + k * dCol d))"
    and path: "\<And>j. 1 \<le> j \<Longrightarrow> j \<le> k \<Longrightarrow>
        isValidCoord (int (i div 7) + j * dRow d) (int (i mod 7) + j * dCol d) \<and>
        st ! coordsToIndex (nat (int (i div 7) + j * dRow d))
              (nat (int (i mod 7) + j * dCol d)) = Empty"
  shows "legalSlide st m"
proof -
  define s :: int where "s = 7 * dRow d + dCol d"
  have idx: "int (coordsToIndex (nat (int (i div 7) + j * dRow d))
                    (nat (int (i mod 7) + j * dCol d))) = int i + j * s"
    if "1 \<le> j" "j \<le> k" for j
  proof -
    have v: "isValidCoord (int (i div 7) + j * dRow d) (int (i mod 7) + j * dCol d)"
      using path that by blast
    have "int (coordsToIndex (nat (int (i div 7) + j * dRow d))
                    (nat (int (i mod 7) + j * dCol d)))
        = (int (i div 7) + j * dRow d) * 7 + (int (i mod 7) + j * dCol d)"
      using v by (intro cell_of_coords) (auto simp: isValidCoord_def)
    also have "\<dots> = (int (i div 7) * 7 + int (i mod 7)) + j * s"
      by (simp add: s_def algebra_simps)
    also have "int (i div 7) * 7 + int (i mod 7) = int i"
      by presburger
    finally show ?thesis .
  qed
  have empty: "st ! nat (int i + j * s) = Empty" if "1 \<le> j" "j \<le> k" for j
    using path [OF that] idx [OF that] by (metis nat_int)
  have vk: "isValidCoord (int (i div 7) + k * dRow d) (int (i mod 7) + k * dCol d)"
    using path [of k] k by simp
  have tk: "int (toIdx m) = int i + k * s"
    using idx [of k] k to by simp
  define K where "K = nat k"
  have kK: "k = int K" and K1: "1 \<le> K" using k by (simp_all add: K_def)
  have emptyK: "st ! nat (int i + int J * s) = Empty" if "1 \<le> J" "J \<le> K" for J
    using empty [of "int J"] that kK by simp
  define q r where "q = i div 7" and "r = i mod 7"
  have iqr: "i = 7 * q + r" and r7: "r < 7" and q7: "q < 7"
    using i by (auto simp: q_def r_def)
  have dm: "(7 * a + b) div 7 = a \<and> (7 * a + b) mod 7 = b" if "b < 7" for a b :: nat
    using that by simp
  have split7: "n = 7 * (n div 7) + n mod 7" for n :: nat
    by simp
  show ?thesis
  proof (cases d)
    case Right
    then have s1: "s = 1" by (simp add: s_def)
    have bound: "r + K < 7" using vk Right kK by (simp add: isValidCoord_def q_def r_def)
    have t: "toIdx m = 7 * q + (r + K)" using tk kK iqr unfolding s1 by simp
    have tdm: "toIdx m div 7 = q \<and> toIdx m mod 7 = r + K"
      unfolding t using dm [OF bound] .
    have idm: "i div 7 = q \<and> i mod 7 = r" by (simp add: q_def r_def)
    have seg: "st ! n = Empty" if "onSegment i (toIdx m) n" for n
    proof -
      have "n \<noteq> i \<and> i \<le> n \<and> n \<le> toIdx m"
        using that t iqr by (auto simp: onSegment_def)
      then have "1 \<le> n - i \<and> n - i \<le> K \<and> int i + int (n - i) = int n"
        using t iqr by linarith
      then show ?thesis
        using emptyK [of "n - i"] s1 by simp
    qed
    have ne: "i \<noteq> toIdx m" using t iqr K1 by linarith
    have t49: "toIdx m < 49" using t bound q7 by linarith
    show ?thesis
      unfolding legalSlide_def list_all_iff fr
      using i occ ne t49 seg tdm idm by blast
  next
    case Left
    then have s1: "s = - 1" by (simp add: s_def)
    have bound: "K \<le> r" using vk Left kK by (simp add: isValidCoord_def q_def r_def)
    have t: "toIdx m = 7 * q + (r - K)" using tk kK iqr bound unfolding s1 by simp
    have tdm: "toIdx m div 7 = q \<and> toIdx m mod 7 = r - K"
      unfolding t using dm [of "r - K" q] r7 by simp
    have idm: "i div 7 = q \<and> i mod 7 = r" by (simp add: q_def r_def)
    have seg: "st ! n = Empty" if "onSegment i (toIdx m) n" for n
    proof -
      have "n \<noteq> i \<and> n \<le> i \<and> toIdx m \<le> n"
        using that t iqr by (auto simp: onSegment_def)
      then have "1 \<le> i - n \<and> i - n \<le> K \<and> int i + int (i - n) * (- 1) = int n"
        using t iqr bound by linarith
      then show ?thesis
        using emptyK [of "i - n"] s1 by simp
    qed
    have ne: "i \<noteq> toIdx m" using t iqr K1 bound by linarith
    have t49: "toIdx m < 49" using t i iqr by linarith
    show ?thesis
      unfolding legalSlide_def list_all_iff fr
      using i occ ne t49 seg tdm idm by blast
  next
    case Down
    then have s1: "s = 7" by (simp add: s_def)
    have bound: "q + K < 7" using vk Down kK by (simp add: isValidCoord_def q_def r_def)
    have t: "toIdx m = 7 * (q + K) + r" using tk kK iqr unfolding s1 by simp
    have tdm: "toIdx m div 7 = q + K \<and> toIdx m mod 7 = r"
      unfolding t using dm [OF r7] .
    have idm: "i div 7 = q \<and> i mod 7 = r" by (simp add: q_def r_def)
    have seg: "st ! n = Empty" if "onSegment i (toIdx m) n" for n
    proof -
      have c: "n \<noteq> i \<and> i \<le> n \<and> n \<le> toIdx m \<and> n mod 7 = r"
        using that t iqr tdm idm K1 by (auto simp: onSegment_def)
      obtain p where n: "n = 7 * p + r" using split7 [of n] c by metis
      have "n \<noteq> i \<and> i \<le> n \<and> n \<le> toIdx m" using c by simp
      then have pq: "q < p \<and> p \<le> q + K"
        unfolding n t iqr by auto
      then have "int (p - q) = int p - int q" by (simp add: of_nat_diff)
      then have "int i + int (p - q) * 7 = int n"
        unfolding n iqr by simp
      then have "1 \<le> p - q \<and> p - q \<le> K \<and> int i + int (p - q) * 7 = int n"
        using pq by linarith
      then show ?thesis
        using emptyK [of "p - q"] s1 by simp
    qed
    have ne: "i \<noteq> toIdx m" using K1 unfolding t iqr by simp
    have t49: "toIdx m < 49" using bound r7 unfolding t by simp
    show ?thesis
      unfolding legalSlide_def list_all_iff fr
      using i occ ne t49 seg tdm idm by blast
  next
    case Up
    then have s1: "s = - 7" by (simp add: s_def)
    have bound: "K \<le> q" using vk Up kK by (simp add: isValidCoord_def q_def r_def)
    have t: "toIdx m = 7 * (q - K) + r" using tk kK iqr bound unfolding s1 by simp
    have tdm: "toIdx m div 7 = q - K \<and> toIdx m mod 7 = r"
      unfolding t using dm [OF r7] .
    have idm: "i div 7 = q \<and> i mod 7 = r" by (simp add: q_def r_def)
    have seg: "st ! n = Empty" if "onSegment i (toIdx m) n" for n
    proof -
      have c: "n \<noteq> i \<and> n \<le> i \<and> toIdx m \<le> n \<and> n mod 7 = r"
        using that t iqr tdm idm K1 bound by (auto simp: onSegment_def)
      obtain p where n: "n = 7 * p + r" using split7 [of n] c by metis
      have "n \<noteq> i \<and> n \<le> i \<and> toIdx m \<le> n" using c by simp
      then have pq: "p < q \<and> q \<le> p + K"
        unfolding n t iqr using bound by auto
      then have "int (q - p) = int q - int p" by (simp add: of_nat_diff)
      then have "int i + int (q - p) * (- 7) = int n"
        unfolding n iqr by simp
      then have "1 \<le> q - p \<and> q - p \<le> K \<and> int i + int (q - p) * (- 7) = int n"
        using pq by linarith
      then show ?thesis
        using emptyK [of "q - p"] s1 by simp
    qed
    have ne: "i \<noteq> toIdx m" using K1 bound unfolding t iqr by simp
    have t49: "toIdx m < 49" using i bound unfolding t iqr by simp
    show ?thesis
      unfolding legalSlide_def list_all_iff fr
      using i occ ne t49 seg tdm idm by blast
  qed
qed

lemma generateLegalMoves_legal:
  assumes "m \<in> set (generateLegalMoves st)"
  shows "legalSlide st m"
proof -
  obtain i d where i: "i < 49" and occ: "st ! i \<noteq> Empty"
      and mem: "m \<in> set (probe st d i (int (i div 7)) (int (i mod 7)))"
    using assms
    by (auto simp: generateLegalMoves_def indexToCoords_def split: if_splits)
  have fr: "fromIdx m = i" using probe_sound [OF mem] by simp
  obtain k where k: "1 \<le> k"
      and to: "toIdx m = coordsToIndex (nat (int (i div 7) + k * dRow d))
                          (nat (int (i mod 7) + k * dCol d))"
      and path: "\<forall>j. 1 \<le> j \<and> j \<le> k \<longrightarrow>
          isValidCoord (int (i div 7) + j * dRow d) (int (i mod 7) + j * dCol d) \<and>
          st ! coordsToIndex (nat (int (i div 7) + j * dRow d))
                (nat (int (i mod 7) + j * dCol d)) = Empty"
    using probe_path [OF mem] by blast
  show ?thesis
    using i occ k fr to
  proof (rule legal_from_path)
    fix j :: int assume "1 \<le> j" "j \<le> k"
    then show "isValidCoord (int (i div 7) + j * dRow d) (int (i mod 7) + j * dCol d) \<and>
          st ! coordsToIndex (nat (int (i div 7) + j * dRow d))
                (nat (int (i mod 7) + j * dCol d)) = Empty"
      using path by blast
  qed
qed

subsection \<open>The mover's decision\<close>

lemma deepeningLoop_move:
  "resultMove (fst (deepeningLoop now tm gs d ms bs bm w)) = bm \<or>
   resultMove (fst (deepeningLoop now tm gs d ms bs bm w)) \<in> Some ` set ms"
proof (induction ms arbitrary: bs bm w)
  case Nil
  then show ?case by simp
next
  case (Cons m ms)
  obtain stop w1 where s: "shouldStop now tm w = (stop, w1)"
    by (cases "shouldStop now tm w")
  show ?case
  proof (cases stop)
    case True
    then show ?thesis using s by simp
  next
    case False
    obtain sc w2 where mm: "minimax now tm (gs\<lparr> state := applyMove (state gs) m \<rparr>)
                  (d - 1) NegInf PosInf False w1 = (sc, w2)"
      by (cases "minimax now tm (gs\<lparr> state := applyMove (state gs) m \<rparr>)
                  (d - 1) NegInf PosInf False w1")
    show ?thesis
      using False s mm Cons.IH [of sc "Some m" w2] Cons.IH [of bs bm w2]
      by (auto simp del: minimax.simps)
  qed
qed

lemma set_orderMovesByHeuristic:
  "set (orderMovesByHeuristic st ms) = set ms"
  by (simp add: orderMovesByHeuristic_def Let_def image_image)

lemma iterativeDeepening_move:
  "resultMove (fst (iterativeDeepening now tm gs d w)) = None \<or>
   resultMove (fst (iterativeDeepening now tm gs d w)) \<in> Some ` set (getAllLegalMoves (state gs))"
  using deepeningLoop_move [of now tm gs d
      "orderMovesByHeuristic (state gs) (getAllLegalMoves (state gs))" NegInf None w]
  by (simp add: iterativeDeepening_def Let_def set_orderMovesByHeuristic)

lemma orderLoop_move:
  "orderLoop now tm gs depth bm w = bm \<or>
   orderLoop now tm gs depth bm w \<in> Some ` set (getAllLegalMoves (state gs))"
proof (induction now tm gs depth bm w rule: orderLoop.induct)
  case (1 now tm gs depth bm w)
  obtain rem w1 where r: "remaining now tm w = (rem, w1)"
    by (cases "remaining now tm w")
  show ?case
  proof (cases "rem > 500 \<and> depth \<le> 4")
    case False
    then show ?thesis using r by (subst (1 2) orderLoop.simps) auto
  next
    case True
    obtain result w2 where it: "iterativeDeepening now tm gs depth w1 = (result, w2)"
      by (cases "iterativeDeepening now tm gs depth w1")
    have res: "resultMove result = None \<or> resultMove result \<in> Some ` set (getAllLegalMoves (state gs))"
      using iterativeDeepening_move [of now tm gs depth w1] it by simp
    let ?bm = "case resultMove result of Some m \<Rightarrow> Some m | None \<Rightarrow> bm"
    have ih: "orderLoop now tm gs (depth + 1) ?bm w2 = ?bm \<or>
        orderLoop now tm gs (depth + 1) ?bm w2 \<in> Some ` set (getAllLegalMoves (state gs))"
      using "1.IH" [OF r [symmetric] True it [symmetric]] by simp
    have eq: "orderLoop now tm gs depth bm w = orderLoop now tm gs (depth + 1) ?bm w2"
      using True r it by (subst orderLoop.simps) simp
    show ?thesis
      using ih res unfolding eq by (auto split: option.splits)
  qed
qed

text \<open>
  C6: for every game state and every behaviour of the clock, \<open>orderNextTurn\<close> returns (the
  model has no failing branch) either the token \<open>pass\<close> or the rendering of a slide that the
  move generator yields for the input board, which is a legal slide of that board; on a board
  without legal slides it returns \<open>pass\<close>.
\<close>

theorem orderNextTurn_pass_or_legal:
  assumes "length (state gs) = 49"
  shows "(orderNextTurn now gs = ''pass'' \<or>
    (\<exists>m \<in> set (getAllLegalMoves (state gs)).
       legalSlide (state gs) m \<and>
       orderNextTurn now gs = indexToPosition (fromIdx m) @ ''-'' @ indexToPosition (toIdx m))) \<and>
   (getAllLegalMoves (state gs) = [] \<longrightarrow> orderNextTurn now gs = ''pass'')"
proof -
  obtain t w where d: "dateNow now \<lparr> ticks = 0, cache = newLRUCache 5000 \<rparr> = (t, w)"
    by (cases "dateNow now \<lparr> ticks = 0, cache = newLRUCache 5000 \<rparr>")
  let ?r = "orderLoop now \<lparr> startTime = t, timeLimit = 2000 \<rparr> gs 1 None w"
  have r: "?r = None \<or> ?r \<in> Some ` set (getAllLegalMoves (state gs))"
    by (rule orderLoop_move)
  have o: "orderNextTurn now gs = formatOrderMove ?r"
    using d by (simp add: orderNextTurn_def)
  have legal: "\<And>m. m \<in> set (getAllLegalMoves (state gs)) \<Longrightarrow> legalSlide (state gs) m"
    by (simp add: getAllLegalMoves_def generateLegalMoves_legal)
  show ?thesis
    using r legal unfolding o by (auto simp: formatOrderMove_def)
qed

theorem orderNextTurn_pass_or_legal_witness:
  "orderNextTurn (\<lambda>n. 2000 * int n)
     \<lparr> state = (replicate 49 Empty)[3 := R, 7 := G], nextToken = Y, turn = order \<rparr> = ''pass'' \<and>
   orderNextTurn (\<lambda>n. 0) \<lparr> state = replicate 49 Empty, nextToken = Y, turn = order \<rparr> = ''pass''"
proof -
  have a: "orderNextTurn (\<lambda>n. 2000 * int n)
     \<lparr> state = (replicate 49 Empty)[3 := R, 7 := G], nextToken = Y, turn = order \<rparr> = ''pass''"
    by code_simp
  have e: "getAllLegalMoves (state \<lparr> state = replicate 49 Empty, nextToken = Y, turn = order \<rparr>) = []"
    by code_simp
  have l: "length (state \<lparr> state = replicate 49 Empty, nextToken = Y, turn = order \<rparr>) = 49"
    by simp
  show ?thesis
    using a e orderNextTurn_pass_or_legal [OF l, of "\<lambda>n. 0"]
    by blast
qed

subsection \<open>The transposition table and the deadline\<close>

text \<open>
  C3: the claim that the search with the transposition table returns what the search without
  it returns fails on the code. On the board with one red piece on cell 3 every slide of the
  piece leaves the key of the board unchanged, because \<open>getBoardStateKey\<close> drops the empty
  cells: the search at depth 1 with the table of 5000 entries returns the evaluation -700 of
  the input board for every slide, the same search with a table of capacity 0 (which never
  holds an entry) returns -680, the evaluation after the slide to the centre cell 17.
\<close>

theorem minimax_cache_changes_result:
  "fst (minimax (\<lambda>n. 0) \<lparr> startTime = 0, timeLimit = 2000 \<rparr>
          \<lparr> state = (replicate 49 Empty)[3 := R], nextToken = G, turn = order \<rparr>
          1 NegInf PosInf True \<lparr> ticks = 1, cache = newLRUCache 5000 \<rparr>) = Fin (- 700) \<and>
   fst (minimax (\<lambda>n. 0) \<lparr> startTime = 0, timeLimit = 2000 \<rparr>
          \<lparr> state = (replicate 49 Empty)[3 := R], nextToken = G, turn = order \<rparr>
          1 NegInf PosInf True \<lparr> ticks = 1, cache = newLRUCache 0 \<rparr>) = Fin (- 680) \<and>
   getBoardStateKey ((replicate 49 Empty)[3 := R]) = getBoardStateKey ((replicate 49 Empty)[17 := R])"
  by code_simp

text \<open>
  C4: the claim that a deeper iteration cut off by the deadline never replaces the result of
  the last complete iteration fails on the code. The board holds a red piece on cell 3 and a
  green piece on cell 7; the clock advances 25 ms per reading and stalls for 700 ms after
  reading 52. The iteration at depth 1 searches all 24 slides and finds the slide from cell 3
  to cell 2; 750 ms remain, so the iteration at depth 2 starts, searches the first slide only
  (from cell 3 to cell 10) and is cut off; the driver returns that slide.
\<close>

theorem orderNextTurn_keeps_cut_off_iteration:
  "orderNextTurn (\<lambda>n. if n \<le> 52 then 25 * int n else 25 * int n + 700)
     \<lparr> state = (replicate 49 Empty)[3 := R, 7 := G], nextToken = Y, turn = order \<rparr> = ''a4-b4'' \<and>
   (case iterativeDeepening (\<lambda>n. if n \<le> 52 then 25 * int n else 25 * int n + 700)
           \<lparr> startTime = 0, timeLimit = 2000 \<rparr>
           \<lparr> state = (replicate 49 Empty)[3 := R, 7 := G], nextToken = Y, turn = order \<rparr> 1
           \<lparr> ticks = 2, cache = newLRUCache 5000 \<rparr> of
      (r1, w1) \<Rightarrow>
        r1 = \<lparr> resultScore = Fin (- 665), resultMove = Some \<lparr> fromIdx = 3, toIdx = 2 \<rparr> \<rparr> \<and>
        ticks w1 = 2 + 2 * 24 \<and>
        (case remaining (\<lambda>n. if n \<le> 52 then 25 * int n else 25 * int n + 700)
                \<lparr> startTime = 0, timeLimit = 2000 \<rparr> w1 of
           (rem, w2) \<Rightarrow>
             rem = 750 \<and>
             (case iterativeDeepening (\<lambda>n. if n \<le> 52 then 25 * int n else 25 * int n + 700)
                     \<lparr> startTime = 0, timeLimit = 2000 \<rparr>
                     \<lparr> state = (replicate 49 Empty)[3 := R, 7 := G], nextToken = Y, turn = order \<rparr>
                     2 w2 of
                (r2, w3) \<Rightarrow>
                  r2 = \<lparr> resultScore = Fin (- 745),
                         resultMove = Some \<lparr> fromIdx = 3, toIdx = 10 \<rparr> \<rparr> \<and>
                  ticks w3 = ticks w2 + 3))) \<and>
   length (getAllLegalMoves ((replicate 49 Empty)[3 := R, 7 := G])) = 24 \<and>
   formatOrderMove (Some \<lparr> fromIdx = 3, toIdx = 2 \<rparr>) = ''a4-a3''"
  by code_simp

end
